theory Spec2Isabelle
  imports Complex_Main "HOL-Library.Sublist" "HOL-Library.AList"
begin

section \<open>Data model\<close>

text \<open>
  The problem types are the six values of \<open>ProblemTypes\<close> that
  \<open>evalml/automl/utils.py\<close> keys its default-objective table by.
\<close>

datatype problem_type =
  BINARY | MULTICLASS | REGRESSION
  | TIME_SERIES_REGRESSION | TIME_SERIES_BINARY | TIME_SERIES_MULTICLASS

text \<open>
  Modelled from the spec: \<open>is_binary\<close> is imported from \<open>evalml.problem_types\<close>,
  which is not among the sources. The spec only speaks of "the problem type is binary";
  the two binary problem types are taken to satisfy it.
\<close>

definition is_binary :: "problem_type \<Rightarrow> bool" where
  "is_binary pt = (pt = BINARY \<or> pt = TIME_SERIES_BINARY)"

text \<open>
  Python exceptions as values. \<open>PipelineScoreError\<close> carries the captured failures
  (\<open>exceptions\<close>), the partial successes (\<open>scored_successfully\<close>) and the combined
  message, each dictionary as an association list in insertion order.
\<close>

datatype exn =
  ValueError string
  | TypeError string
  | AttributeError string
  | IndexError string
  | NotFittedError string
  | PipelineNotYetFittedError string
  | Exception string
  | PipelineScoreError "(string \<times> exn) list" "(string \<times> real) list" string

fun exn_text :: "exn \<Rightarrow> string" where
  "exn_text (ValueError m) = m"
| "exn_text (TypeError m) = m"
| "exn_text (AttributeError m) = m"
| "exn_text (IndexError m) = m"
| "exn_text (NotFittedError m) = m"
| "exn_text (PipelineNotYetFittedError m) = m"
| "exn_text (Exception m) = m"
| "exn_text (PipelineScoreError excs succ m) = m"

text \<open>A pandas series: its values and its name (\<open>None\<close> when it has none).\<close>

record 'v series =
  series_values :: "'v list"
  series_name :: "string option"

text \<open>
  A data frame, column by column: each column is its label and its values.
  \<open>columns\<close> reads the labels; \<open>set_columns\<close> is the assignment
  \<open>df.columns = labels\<close>, which pandas refuses when the number of labels differs
  from the number of columns; \<open>iloc_column\<close> is \<open>df.iloc[:, i]\<close> for \<open>i \<ge> 0\<close>.
\<close>

type_synonym 'c data_frame = "('c \<times> real list) list"

definition columns :: "'c data_frame \<Rightarrow> 'c list" where
  "columns df = map fst df"

definition set_columns :: "'c data_frame \<Rightarrow> 'd list \<Rightarrow> exn + 'd data_frame" where
  "set_columns df labels =
     (if length labels = length df then Inr (zip labels (map snd df))
      else Inl (ValueError ''Length mismatch''))"

definition iloc_column :: "'c data_frame \<Rightarrow> nat \<Rightarrow> exn + real list" where
  "iloc_column df i =
     (if i < length df then Inr (snd (df ! i))
      else Inl (IndexError ''single positional indexer is out-of-bounds''))"

subsection \<open>The label encoder\<close>

text \<open>
  The encoder is \<open>sklearn.preprocessing.LabelEncoder\<close>, a library class. What it does
  is read off the sources: the docstring of \<open>ClassificationPipeline.fit\<close> says "classes
  are sorted by sorted(set(y)) and then are mapped to values between 0 and n_classes-1",
  \<open>classes_\<close> tests for the attribute of that name, absent (\<open>None\<close>) until \<open>fit\<close>,
  and \<open>_encode_targets\<close> catches the \<open>ValueError\<close> that \<open>transform\<close> raises on a value
  outside the learned classes. \<open>inverse_transform\<close> raises likewise on a code outside
  \<open>0..n_classes-1\<close>, and both raise \<open>NotFittedError\<close> (a \<open>ValueError\<close>) before \<open>fit\<close>.
  \<open>index_of cs v\<close> is the position of \<open>v\<close> in the class list.
\<close>

fun index_of :: "'a list \<Rightarrow> 'a \<Rightarrow> nat" where
  "index_of [] v = 0"
| "index_of (c # cs) v = (if c = v then 0 else Suc (index_of cs v))"

definition LabelEncoder_fit :: "'a::linorder list \<Rightarrow> 'a list option" where
  "LabelEncoder_fit y = Some (sorted_list_of_set (set y))"

definition LabelEncoder_transform :: "'a list option \<Rightarrow> 'a list \<Rightarrow> exn + int list" where
  "LabelEncoder_transform classes y =
     (case classes of
        None \<Rightarrow> Inl (NotFittedError ''This LabelEncoder instance is not fitted yet.'')
      | Some cs \<Rightarrow>
          if list_all (\<lambda>v. v \<in> set cs) y then Inr (map (\<lambda>v. int (index_of cs v)) y)
          else Inl (ValueError ''y contains previously unseen labels''))"

definition LabelEncoder_inverse_transform :: "'a list option \<Rightarrow> int list \<Rightarrow> exn + 'a list" where
  "LabelEncoder_inverse_transform classes codes =
     (case classes of
        None \<Rightarrow> Inl (NotFittedError ''This LabelEncoder instance is not fitted yet.'')
      | Some cs \<Rightarrow>
          if list_all (\<lambda>c. 0 \<le> c \<and> c < int (length cs)) codes
          then Inr (map (\<lambda>c. cs ! nat c) codes)
          else Inl (ValueError ''y contains previously unseen labels''))"

subsection \<open>Collaborators: the component graph and the objectives\<close>

text \<open>
  The component graph and its estimator are opaque capability providers (spec, section 1).
  \<open>'g\<close> is the graph's state, \<open>'x\<close> the type of feature tables. \<open>cg_new\<close> builds the
  unfitted graph of a new pipeline from its parameters and random seed, \<open>cg_fit\<close> is
  \<open>ComponentGraph.fit(X, y)\<close>, which returns the fitted graph or raises (a component
  may refuse its input), \<open>cg_predict\<close> is \<open>ComponentGraph.predict(X)\<close> read as
  integers (\<open>_decode_targets\<close> casts with \<open>astype(int)\<close>), \<open>cg_predict_proba\<close> is
  \<open>compute_estimator_features\<close> followed by the estimator's \<open>predict_proba\<close>,
  \<open>cg_feature_names\<close> gives the column names of a feature table and \<open>x_len\<close> its
  number of rows, which is its \<open>len\<close>.
\<close>

record ('x, 'g, 'p) graph_ops =
  cg_new :: "'p \<Rightarrow> int \<Rightarrow> 'g"
  cg_fit :: "'g \<Rightarrow> 'x \<Rightarrow> int series \<Rightarrow> exn + 'g"
  cg_predict :: "'g \<Rightarrow> 'x \<Rightarrow> int list"
  cg_predict_proba :: "'g \<Rightarrow> 'x \<Rightarrow> int data_frame"
  cg_feature_names :: "'x \<Rightarrow> string list"
  x_len :: "'x \<Rightarrow> nat"

text \<open>What an objective is scored on: label predictions or a table of probabilities.\<close>

datatype 'a y_pred = Labels "int list" | Probabilities "'a data_frame"

text \<open>
  An objective, with the members the sources use: \<open>name\<close>, \<open>score_needs_proba\<close>,
  \<open>is_defined_for_problem_type\<close>, \<open>can_optimize_threshold\<close>, its scoring function
  (which may raise) and \<open>optimize_threshold(y_pred_proba, targets, X)\<close>.
\<close>

record ('x, 'a) objective =
  obj_name :: string
  score_needs_proba :: bool
  is_defined_for_problem_type :: "problem_type \<Rightarrow> bool"
  can_optimize_threshold :: bool
  objective_score :: "int list \<Rightarrow> 'a y_pred \<Rightarrow> 'x \<Rightarrow> exn + real"
  objective_optimize_threshold :: "real list \<Rightarrow> int list \<Rightarrow> 'x \<Rightarrow> real"

subsection \<open>Pipelines\<close>

text \<open>
  A Python class: its name, its module and its base classes. A subclass holds its
  parent among its bases.
\<close>

datatype pyclass = PyClass string string "pyclass list"

fun class_name :: "pyclass \<Rightarrow> string" where
  "class_name (PyClass n m bs) = n"

fun class_module :: "pyclass \<Rightarrow> string" where
  "class_module (PyClass n m bs) = m"

fun class_bases :: "pyclass \<Rightarrow> pyclass list" where
  "class_bases (PyClass n m bs) = bs"

text \<open>
  The state of a classification pipeline: the attributes the sources read and write
  (\<open>_encoder.classes_\<close>, \<open>input_target_name\<close>, \<open>threshold\<close>, \<open>_component_graph\<close>)
  and those of the base class that the spec names (class, parameters, random seed,
  fitted flag). \<open>'p\<close> is the type of the parameter mapping. \<open>component_graph\<close>
  is the class's declaration of its components: an ordered sequence, or a mapping from
  node names to a component and its parents; a component is referred to by its registered
  name or by a class. \<open>class_attributes\<close> are the other public
  attributes of the class (such as \<open>name\<close>), each with its value as Python prints it.
\<close>

datatype component_ref = ByName string | ByClass string

datatype graph_spec =
  LinearGraph "component_ref list"
  | NonlinearGraph "(string \<times> component_ref \<times> string list) list"

record ('a, 'g, 'p) pipeline =
  pipeline_class :: pyclass
  problem_type :: problem_type
  component_graph :: graph_spec
  class_attributes :: "(string \<times> string) list"
  parameters :: 'p
  random_seed :: int
  is_fitted :: bool
  input_target_name :: "string option"
  input_feature_names :: "string list option"
  encoder_classes :: "'a list option"
  threshold :: "real option"
  component_graph_instance :: 'g

section \<open>ClassificationPipeline\<close>

text \<open>
  \<open>_encode_targets\<close>: the encoder's \<open>transform\<close>, as a series with the index and name
  of \<open>y\<close>; a \<open>ValueError\<close> (\<open>NotFittedError\<close> is one) is raised again as a plain
  \<open>ValueError\<close> with the same text.
\<close>

definition encode_targets :: "('a, 'g, 'p) pipeline \<Rightarrow> 'a series \<Rightarrow> exn + int series" where
  "encode_targets p y =
     (case LabelEncoder_transform (encoder_classes p) (series_values y) of
        Inl e \<Rightarrow> Inl (ValueError (exn_text e))
      | Inr codes \<Rightarrow> Inr \<lparr>series_values = codes, series_name = series_name y\<rparr>)"

text \<open>\<open>_decode_targets\<close>: the encoder's \<open>inverse_transform\<close> of the values cast to integers.\<close>

definition decode_targets :: "('a, 'g, 'p) pipeline \<Rightarrow> int list \<Rightarrow> exn + 'a list" where
  "decode_targets p y = LabelEncoder_inverse_transform (encoder_classes p) y"

text \<open>
  Modelled from the spec: \<open>PipelineBase._fit\<close> is not among the sources. The spec
  (section 4.2) has \<open>fit\<close> drive the component graph's fit, store \<open>input_target_name\<close>
  and set the fitted flag; the feature names seen at fit time are kept as well
  (see \<open>pipeline_eq\<close>). When the graph's fit raises, so does \<open>_fit\<close>, and the
  pipeline is not fitted.
\<close>

definition fit_private ::
  "('x, 'g, 'p) graph_ops \<Rightarrow> ('a, 'g, 'p) pipeline \<Rightarrow> 'x \<Rightarrow> int series
     \<Rightarrow> exn + ('a, 'g, 'p) pipeline" where
  "fit_private ops p X y =
     (case cg_fit ops (component_graph_instance p) X y of
        Inl e \<Rightarrow> Inl e
      | Inr g \<Rightarrow>
          Inr (p\<lparr>input_target_name := series_name y,
                 component_graph_instance := g,
                 input_feature_names := Some (cg_feature_names ops X),
                 is_fitted := True\<rparr>))"

text \<open>
  \<open>fit\<close>: fit the encoder on \<open>y\<close>, encode \<open>y\<close>, fit the graph on the encoded target.
  \<open>X\<close> is a feature table and \<open>y\<close> a series already, so the conversions of the first
  three lines are the identity. The result is the fitted pipeline, or the exception
  that ended the call.
\<close>

definition fit ::
  "('x, 'g, 'p) graph_ops \<Rightarrow> ('a::linorder, 'g, 'p) pipeline \<Rightarrow> 'x \<Rightarrow> 'a series
     \<Rightarrow> exn + ('a, 'g, 'p) pipeline" where
  "fit ops p X y =
     (let p1 = p\<lparr>encoder_classes := LabelEncoder_fit (series_values y)\<rparr> in
      case encode_targets p1 y of
        Inl e \<Rightarrow> Inl e
      | Inr y_enc \<Rightarrow> fit_private ops p1 X y_enc)"

text \<open>\<open>classes_\<close>: an \<open>AttributeError\<close> before the encoder is fitted.\<close>

definition classes :: "('a, 'g, 'p) pipeline \<Rightarrow> exn + 'a list" where
  "classes p =
     (case encoder_classes p of
        None \<Rightarrow> Inl (AttributeError ''Cannot access class names before fitting the pipeline.'')
      | Some cs \<Rightarrow> Inr cs)"

text \<open>
  \<open>predict_proba\<close>: the estimator's probabilities, with the columns renamed to the
  encoder's \<open>classes_\<close>.
  Modelled from the spec: the guard of the first line is the base class's (not among
  the sources); by the spec (sections 4.2 and 7) \<open>predict\<close> and \<open>predict_proba\<close> fail with
  \<open>PipelineNotYetFittedError\<close> before \<open>fit\<close>.
\<close>

definition predict_proba ::
  "('x, 'g, 'p) graph_ops \<Rightarrow> ('a, 'g, 'p) pipeline \<Rightarrow> 'x \<Rightarrow> exn + 'a data_frame" where
  "predict_proba ops p X =
     (if \<not> is_fitted p
      then Inl (PipelineNotYetFittedError ''This pipeline is not fitted yet.'')
      else let proba = cg_predict_proba ops (component_graph_instance p) X in
           case encoder_classes p of
             None \<Rightarrow> Inl (AttributeError ''LabelEncoder object has no attribute classes_'')
           | Some cs \<Rightarrow> set_columns proba cs)"

text \<open>
  The calls made to the pipeline's two inference methods, \<open>predict_proba\<close> and
  \<open>_predict\<close>, in the order in which they are made. A function that calls them returns
  this list beside its result; a call that raises is in the list as well.
\<close>

datatype inference_call = Call_predict_proba | Call_predict

text \<open>
  \<open>_predict\<close>, called without an objective, as \<open>score\<close> and \<open>predict(X)\<close> call it.
  \<open>self._predict\<close> is dispatched on the pipeline's class. The method of
  \<open>ClassificationPipeline\<close> returns the component graph's predictions, not decoded.
  Modelled from the spec: the binary pipeline class overrides it
  (\<open>test_pipelines.py\<close> patches \<open>BinaryClassificationPipeline._predict\<close> when the problem
  type is \<open>BINARY\<close>), and its code is not among the sources. By the spec (sections 2
  and 3 and the glossary) the binary pipeline class adds "probability-to-label
  thresholding" with an optional \<open>threshold\<close>, "a binary decision cutoff on predicted
  probability": while the threshold is unset the override returns the graph's
  predictions as well; once it is set, it calls \<open>predict_proba\<close>, takes the second
  column, the probability of the positive class, and answers for each row whether it
  exceeds the threshold (\<open>True\<close> and \<open>False\<close> read as the codes 1 and 0).
  The time series subclasses override \<open>predict\<close> and \<open>score\<close> themselves and are not
  modelled.
\<close>

definition predict_private ::
  "('x, 'g, 'p) graph_ops \<Rightarrow> ('a, 'g, 'p) pipeline \<Rightarrow> 'x
     \<Rightarrow> inference_call list \<times> (exn + int list)" where
  "predict_private ops p X =
     (case (if problem_type p = BINARY then threshold p else None) of
        None \<Rightarrow> ([Call_predict], Inr (cg_predict ops (component_graph_instance p) X))
      | Some t \<Rightarrow>
          ([Call_predict, Call_predict_proba],
           case predict_proba ops p X of
             Inl e \<Rightarrow> Inl e
           | Inr ypred_proba \<Rightarrow>
               (case iloc_column ypred_proba 1 of
                  Inl e \<Rightarrow> Inl e
                | Inr column \<Rightarrow> Inr (map (\<lambda>v. if t < v then 1 else 0) column))))"

text \<open>
  \<open>predict\<close>: decode \<open>_predict\<close> and name the series by \<open>input_target_name\<close>. The
  guard of the first line is the base class's, as in \<open>predict_proba\<close>.
\<close>

definition predict ::
  "('x, 'g, 'p) graph_ops \<Rightarrow> ('a, 'g, 'p) pipeline \<Rightarrow> 'x \<Rightarrow> exn + 'a series" where
  "predict ops p X =
     (if \<not> is_fitted p
      then Inl (PipelineNotYetFittedError ''This pipeline is not fitted yet.'')
      else case snd (predict_private ops p X) of
             Inl e \<Rightarrow> Inl e
           | Inr predictions \<Rightarrow>
               (case decode_targets p predictions of
                  Inl e \<Rightarrow> Inl e
                | Inr labels \<Rightarrow> Inr \<lparr>series_values = labels, series_name = input_target_name p\<rparr>))"

subsection \<open>Scoring\<close>

text \<open>
  \<open>_compute_predictions\<close>, with \<open>time_series=False\<close> as \<open>score\<close> calls it (the other
  branch calls overrides of the time series subclasses, which are not among the sources):
  probabilities when some objective needs them, label predictions (\<open>_predict\<close>, not
  decoded) when some objective does not. The result is the list of inference calls made
  and, unless one of them raised, \<open>y_predicted\<close> and \<open>y_predicted_proba\<close>.
\<close>

definition compute_predictions ::
  "('x, 'g, 'p) graph_ops \<Rightarrow> ('a, 'g, 'p) pipeline \<Rightarrow> 'x \<Rightarrow> int series \<Rightarrow> ('x, 'a) objective list
     \<Rightarrow> inference_call list \<times> (exn + (int list option \<times> 'a data_frame option))" where
  "compute_predictions ops p X y objectives =
     (case (if list_ex score_needs_proba objectives
            then (case predict_proba ops p X of
                    Inl e \<Rightarrow> ([Call_predict_proba], Inl e)
                  | Inr proba \<Rightarrow> ([Call_predict_proba], Inr (Some proba)))
            else ([], Inr None)) of
        (calls1, Inl e) \<Rightarrow> (calls1, Inl e)
      | (calls1, Inr y_predicted_proba) \<Rightarrow>
          (if list_ex (\<lambda>ob. \<not> score_needs_proba ob) objectives
           then (case predict_private ops p X of
                   (calls2, Inl e) \<Rightarrow> (calls1 @ calls2, Inl e)
                 | (calls2, Inr predictions) \<Rightarrow>
                     (calls1 @ calls2, Inr (Some predictions, y_predicted_proba)))
           else (calls1, Inr (None, y_predicted_proba))))"

text \<open>The value of a problem type, as \<open>evalml/automl/utils.py\<close> spells it.\<close>

fun problem_type_value :: "problem_type \<Rightarrow> string" where
  "problem_type_value BINARY = ''binary''"
| "problem_type_value MULTICLASS = ''multiclass''"
| "problem_type_value REGRESSION = ''regression''"
| "problem_type_value TIME_SERIES_REGRESSION = ''time series regression''"
| "problem_type_value TIME_SERIES_BINARY = ''time series binary''"
| "problem_type_value TIME_SERIES_MULTICLASS = ''time series multiclass''"

text \<open>
  Modelled from the spec: \<open>PipelineBase._score_all_objectives\<close> is not among the sources.
  By the spec (sections 4.2, 7 and 9) every objective is evaluated on its own, a failure
  is captured under the objective's name and does not stop the others, and the result is
  "a fold over objectives producing a result type holding both a success map and a
  failure map, converted to a single error only at the boundary if failures is non-empty".
  \<open>score_objective\<close> evaluates one objective on the kind of output it needs; an objective
  that is not defined for the pipeline's problem type fails with the message that
  \<open>test_score_with_objective_that_requires_predict_proba\<close> expects. \<open>score_loop\<close> is the
  fold: both dictionaries are keyed by the objective's name (\<open>AList.update\<close> is the
  assignment \<open>d[key] = value\<close>). \<open>combined_message\<close> joins the captured failures.
\<close>

definition score_objective ::
  "('a, 'g, 'p) pipeline \<Rightarrow> 'x \<Rightarrow> int list \<Rightarrow> int list option \<Rightarrow> 'a data_frame option
     \<Rightarrow> ('x, 'a) objective \<Rightarrow> exn + real" where
  "score_objective p X y y_pred y_pred_proba ob =
     (if \<not> is_defined_for_problem_type ob (problem_type p)
      then Inl (ValueError (''Invalid objective '' @ obj_name ob @ '' specified for problem type ''
                  @ problem_type_value (problem_type p)))
      else if score_needs_proba ob
      then (case y_pred_proba of
              None \<Rightarrow> Inl (TypeError ''no predicted probabilities'')
            | Some proba \<Rightarrow> objective_score ob y (Probabilities proba) X)
      else (case y_pred of
              None \<Rightarrow> Inl (TypeError ''no predictions'')
            | Some labels \<Rightarrow> objective_score ob y (Labels labels) X))"

fun score_loop ::
  "(('x, 'a) objective \<Rightarrow> exn + real) \<Rightarrow> ('x, 'a) objective list
     \<Rightarrow> (string \<times> real) list \<times> (string \<times> exn) list
     \<Rightarrow> (string \<times> real) list \<times> (string \<times> exn) list" where
  "score_loop ev [] acc = acc"
| "score_loop ev (ob # obs) (scored_successfully, exceptions) =
     (case ev ob of
        Inr v \<Rightarrow> score_loop ev obs (AList.update (obj_name ob) v scored_successfully, exceptions)
      | Inl e \<Rightarrow> score_loop ev obs (scored_successfully, AList.update (obj_name ob) e exceptions))"

definition combined_message :: "(string \<times> exn) list \<Rightarrow> string" where
  "combined_message exceptions =
     concat (map (\<lambda>(n, e). n @ '' encountered an error with message ('' @ exn_text e @ '')'' @ [CHR 0x0A])
               exceptions)"

definition score_all_objectives ::
  "('a, 'g, 'p) pipeline \<Rightarrow> 'x \<Rightarrow> int list \<Rightarrow> int list option \<Rightarrow> 'a data_frame option
     \<Rightarrow> ('x, 'a) objective list \<Rightarrow> exn + (string \<times> real) list" where
  "score_all_objectives p X y y_pred y_pred_proba objectives =
     (case score_loop (score_objective p X y y_pred y_pred_proba) objectives ([], []) of
        (scored_successfully, exceptions) \<Rightarrow>
          if exceptions \<noteq> []
          then Inl (PipelineScoreError exceptions scored_successfully (combined_message exceptions))
          else Inr scored_successfully)"

text \<open>
  \<open>score\<close>, in two steps. \<open>score_inputs\<close> is the body up to its last line: encode the
  targets, compute the predictions the objectives need. \<open>score_logged\<close> hands them to
  \<open>_score_all_objectives\<close>; it is the whole body, and returns the inference calls of
  the run beside what the method returns or raises. \<open>score\<close> is that result alone.
  The objectives are taken as already created.
\<close>

definition score_inputs ::
  "('x, 'g, 'p) graph_ops \<Rightarrow> ('a, 'g, 'p) pipeline \<Rightarrow> 'x \<Rightarrow> 'a series \<Rightarrow> ('x, 'a) objective list
     \<Rightarrow> inference_call list \<times> (exn + (int series \<times> int list option \<times> 'a data_frame option))" where
  "score_inputs ops p X y objectives =
     (case encode_targets p y of
        Inl e \<Rightarrow> ([], Inl e)
      | Inr y_enc \<Rightarrow>
          (case compute_predictions ops p X y_enc objectives of
             (calls, Inl e) \<Rightarrow> (calls, Inl e)
           | (calls, Inr (y_predicted, y_predicted_proba)) \<Rightarrow>
               (calls, Inr (y_enc, y_predicted, y_predicted_proba))))"

definition score_logged ::
  "('x, 'g, 'p) graph_ops \<Rightarrow> ('a, 'g, 'p) pipeline \<Rightarrow> 'x \<Rightarrow> 'a series \<Rightarrow> ('x, 'a) objective list
     \<Rightarrow> inference_call list \<times> (exn + (string \<times> real) list)" where
  "score_logged ops p X y objectives =
     (case score_inputs ops p X y objectives of
        (calls, Inl e) \<Rightarrow> (calls, Inl e)
      | (calls, Inr (y_enc, y_predicted, y_predicted_proba)) \<Rightarrow>
          (calls,
           score_all_objectives p X (series_values y_enc) y_predicted y_predicted_proba objectives))"

definition score ::
  "('x, 'g, 'p) graph_ops \<Rightarrow> ('a, 'g, 'p) pipeline \<Rightarrow> 'x \<Rightarrow> 'a series \<Rightarrow> ('x, 'a) objective list
     \<Rightarrow> exn + (string \<times> real) list" where
  "score ops p X y objectives = snd (score_logged ops p X y objectives)"

subsection \<open>Threshold tuning\<close>

text \<open>
  Modelled from the spec: \<open>can_tune_threshold_with_objective\<close> is a method of the base
  class, not among the sources. By the spec (section 4.3) tuning is permitted "only when
  the problem type is binary AND the objective both applies to binary problems and
  exposes a tunable decision threshold"; \<open>tune_binary_threshold\<close> below tests the same
  three conditions.
\<close>

definition can_tune_threshold_with_objective ::
  "('a, 'g, 'p) pipeline \<Rightarrow> ('x, 'a) objective \<Rightarrow> bool" where
  "can_tune_threshold_with_objective p ob =
     (is_binary (problem_type p) \<and> is_defined_for_problem_type ob (problem_type p)
      \<and> can_optimize_threshold ob)"

text \<open>
  \<open>optimize_threshold\<close>. An exception leaves the pipeline as it was, so only the
  successful branch returns a new state.
\<close>

definition optimize_threshold ::
  "('a, 'g, 'p) pipeline \<Rightarrow> 'x \<Rightarrow> 'a series \<Rightarrow> real list \<Rightarrow> ('x, 'a) objective
     \<Rightarrow> exn + ('a, 'g, 'p) pipeline" where
  "optimize_threshold p X y y_pred_proba ob =
     (if can_tune_threshold_with_objective p ob
      then (case encode_targets p y of
              Inl e \<Rightarrow> Inl e
            | Inr targets \<Rightarrow>
                Inr (p\<lparr>threshold :=
                       Some (objective_optimize_threshold ob y_pred_proba (series_values targets) X)\<rparr>))
      else Inl (ValueError ''Problem type must be binary and objective must be optimizable.''))"

text \<open>
  \<open>tune_binary_threshold\<close> of \<open>evalml/automl/utils.py\<close>. It mutates the pipeline and
  returns nothing; the model returns the pipeline after the call and the exception that
  ended it, if any. The tuning features are \<open>None\<close> or a feature table (a
  \<open>ww.DataTable\<close>, by the docstring). \<open>if X_threshold_tuning:\<close> takes Python's
  truth value of them, \<open>truth_value\<close>: \<open>None\<close> is false, and a table, which has
  a \<open>len\<close>, is true unless it is empty.
\<close>

definition truth_value :: "('x, 'g, 'p) graph_ops \<Rightarrow> 'x option \<Rightarrow> bool" where
  "truth_value ops X = (case X of None \<Rightarrow> False | Some t \<Rightarrow> x_len ops t \<noteq> 0)"

definition tune_binary_threshold ::
  "('x, 'g, 'p) graph_ops \<Rightarrow> ('a, 'g, 'p) pipeline \<Rightarrow> ('x, 'a) objective \<Rightarrow> problem_type
     \<Rightarrow> 'x option \<Rightarrow> 'a series \<Rightarrow> ('a, 'g, 'p) pipeline \<times> exn option" where
  "tune_binary_threshold ops pipeline ob pt X_threshold_tuning y_threshold_tuning =
     (if is_binary pt \<and> is_defined_for_problem_type ob pt \<and> can_optimize_threshold ob
      then let p1 = pipeline\<lparr>threshold := Some 0.5\<rparr> in
           (if truth_value ops X_threshold_tuning
            then (case X_threshold_tuning of
                    None \<Rightarrow> (p1, None)
                  | Some X \<Rightarrow>
                      (case predict_proba ops p1 X of
                         Inl e \<Rightarrow> (p1, Some e)
                       | Inr y_predict_proba \<Rightarrow>
                           (case iloc_column y_predict_proba 1 of
                              Inl e \<Rightarrow> (p1, Some e)
                            | Inr column \<Rightarrow>
                                (case optimize_threshold p1 X y_threshold_tuning column ob of
                                   Inl e \<Rightarrow> (p1, Some e)
                                 | Inr p2 \<Rightarrow> (p2, None)))))
            else (p1, None))
      else (pipeline, None))"

subsection \<open>Construction, cloning and equality\<close>

text \<open>
  Modelled from the spec: the constructor of the base class is not among the sources
  (\<open>ClassificationPipeline.__init__\<close> creates the unfitted encoder and calls it). By
  the spec (section 3) a pipeline is built fresh and unfitted from its class's
  declaration, its parameters and its random seed, with no threshold.
\<close>

definition init ::
  "('x, 'g, 'p) graph_ops \<Rightarrow> pyclass \<Rightarrow> problem_type \<Rightarrow> graph_spec \<Rightarrow> (string \<times> string) list
     \<Rightarrow> 'p \<Rightarrow> int \<Rightarrow> ('a, 'g, 'p) pipeline" where
  "init ops cls pt graph attrs params seed =
     \<lparr>pipeline_class = cls, problem_type = pt, component_graph = graph, class_attributes = attrs,
      parameters = params, random_seed = seed, is_fitted = False,
      input_target_name = None, input_feature_names = None, encoder_classes = None,
      threshold = None, component_graph_instance = cg_new ops params seed\<rparr>"

text \<open>
  Modelled from the spec: \<open>PipelineBase.clone\<close> is not among the sources. By the spec
  (section 4.2): "new unfitted instance, same parameters and random seed".
\<close>

definition clone ::
  "('x, 'g, 'p) graph_ops \<Rightarrow> ('a, 'g, 'p) pipeline \<Rightarrow> ('a, 'g, 'p) pipeline" where
  "clone ops p =
     init ops (pipeline_class p) (problem_type p) (component_graph p) (class_attributes p)
       (parameters p) (random_seed p)"

text \<open>
  Modelled from the spec: \<open>PipelineBase.__eq__\<close> is not among the sources. By the spec
  (section 4.2) equality compares the concrete class, the parameters, the random seed and
  the fitted state and, if both are fitted, \<open>input_target_name\<close>. By
  \<open>test_pipeline_equality_different_fitted_data\<close> two clones fitted on feature tables
  with different columns and the same target are not equal, so the feature names seen at
  fit time are compared as well.
\<close>

definition pipeline_eq :: "('a, 'g, 'p) pipeline \<Rightarrow> ('a, 'g, 'p) pipeline \<Rightarrow> bool" where
  "pipeline_eq p q =
     (pipeline_class p = pipeline_class q
      \<and> random_seed p = random_seed q
      \<and> parameters p = parameters q
      \<and> is_fitted p = is_fitted q
      \<and> (is_fitted p \<and> is_fitted q \<longrightarrow>
            input_feature_names p = input_feature_names q
            \<and> input_target_name p = input_target_name q))"

text \<open>The classes a class inherits from: its bases, and theirs.\<close>

fun class_ancestors :: "pyclass \<Rightarrow> pyclass list" where
  "class_ancestors (PyClass n m bs) = bs @ concat (map class_ancestors bs)"

subsection \<open>Generated-code export\<close>

text \<open>
  Parameter values: what JSON can represent (\<open>None\<close>, booleans, integers, floats by
  their decimal text, strings, lists, dictionaries with string keys in insertion order)
  and everything else (\<open>PObject\<close>: an array, a data frame, a class, an enumeration
  member, a component instance), carried by the text Python prints for it.
\<close>

datatype pvalue =
  PNone | PBool bool | PInt int | PFloat string | PStr string
  | PList "pvalue list"
  | PDict "(string \<times> pvalue) list"
  | PObject string

text \<open>The values of a parameter value that JSON cannot represent, in traversal order.\<close>

fun unserializable :: "pvalue \<Rightarrow> pvalue list" where
  "unserializable (PObject r) = [PObject r]"
| "unserializable (PList vs) = concat (map unserializable vs)"
| "unserializable (PDict kvs) = concat (map (\<lambda>kv. unserializable (snd kv)) kvs)"
| "unserializable v = []"

text \<open>The text that identifies a value in an error message.\<close>

fun py_repr :: "pvalue \<Rightarrow> string" where
  "py_repr (PObject r) = r"
| "py_repr (PStr s) = [CHR 0x27] @ s @ [CHR 0x27]"
| "py_repr (PFloat s) = s"
| "py_repr v = []"

text \<open>Decimal text of an integer.\<close>

fun nat_to_string :: "nat \<Rightarrow> string" where
  "nat_to_string n =
     (if n < 10 then [''0123456789'' ! n]
      else nat_to_string (n div 10) @ [''0123456789'' ! (n mod 10)])"

definition int_to_string :: "int \<Rightarrow> string" where
  "int_to_string i = (if i < 0 then ''-'' @ nat_to_string (nat (- i)) else nat_to_string (nat i))"

text \<open>
  JSON text as \<open>json.dumps(value, indent='\t')\<close> lays it out: strings quoted and
  escaped, the items of a non-empty list or dictionary one per line, indented by one tab
  per level. (\<open>PObject\<close> has no JSON text; it is never laid out, see
  \<open>generate_pipeline_code\<close>.)
\<close>

definition json_escape_char :: "char \<Rightarrow> string" where
  "json_escape_char c =
     (if c = CHR 0x22 then [CHR 0x5C, CHR 0x22]
      else if c = CHR 0x5C then [CHR 0x5C, CHR 0x5C]
      else if c = CHR 0x0A then [CHR 0x5C, CHR ''n'']
      else if c = CHR 0x0D then [CHR 0x5C, CHR ''r'']
      else if c = CHR 0x09 then [CHR 0x5C, CHR ''t'']
      else if c = CHR 0x08 then [CHR 0x5C, CHR ''b'']
      else if c = CHR 0x0C then [CHR 0x5C, CHR ''f'']
      else if (of_char c :: nat) < 32 \<or> 126 < (of_char c :: nat)
      then [CHR 0x5C, CHR ''u'', CHR ''0'', CHR ''0'',
            ''0123456789abcdef'' ! ((of_char c :: nat) div 16),
            ''0123456789abcdef'' ! ((of_char c :: nat) mod 16)]
      else [c])"

definition json_string :: "string \<Rightarrow> string" where
  "json_string s = [CHR 0x22] @ concat (map json_escape_char s) @ [CHR 0x22]"

fun join :: "string \<Rightarrow> string list \<Rightarrow> string" where
  "join sep [] = []"
| "join sep [x] = x"
| "join sep (x # y # ys) = x @ sep @ join sep (y # ys)"

definition tabs :: "nat \<Rightarrow> string" where
  "tabs n = replicate n (CHR 0x09)"

fun json_dumps :: "nat \<Rightarrow> pvalue \<Rightarrow> string" where
  "json_dumps lvl PNone = ''null''"
| "json_dumps lvl (PBool b) = (if b then ''true'' else ''false'')"
| "json_dumps lvl (PInt i) = int_to_string i"
| "json_dumps lvl (PFloat s) = s"
| "json_dumps lvl (PStr s) = json_string s"
| "json_dumps lvl (PList vs) =
     (if vs = [] then ''[]''
      else ''['' @ [CHR 0x0A]
           @ join ('','' @ [CHR 0x0A]) (map (\<lambda>v. tabs (Suc lvl) @ json_dumps (Suc lvl) v) vs)
           @ [CHR 0x0A] @ tabs lvl @ '']'')"
| "json_dumps lvl (PDict kvs) =
     (if kvs = [] then ''{}''
      else ''{'' @ [CHR 0x0A]
           @ join ('','' @ [CHR 0x0A])
               (map (\<lambda>kv. tabs (Suc lvl) @ json_string (fst kv) @ '': '' @ json_dumps (Suc lvl) (snd kv)) kvs)
           @ [CHR 0x0A] @ tabs lvl @ ''}'')"
| "json_dumps lvl (PObject r) = []"

text \<open>
  Modelled from the spec: \<open>generate_pipeline_code\<close> (\<open>evalml.pipelines.utils\<close>) is not
  among the sources. By the spec (section 6) it "emits a textual, re-loadable
  construction script (parameters JSON-serialized) for linear pipelines only; non-linear
  pipelines explicitly reject this export with a not supported yet error; any parameter
  value that cannot be represented in the target serialization fails with a cannot be
  JSON-serialized error", and (section 7) the error is a type error "identifying the
  offending value". The error texts are those matched by
  \<open>test_generate_code_nonlinear_pipeline_error\<close> and
  \<open>test_generate_code_pipeline_json_errors\<close>; the script is laid out as the expected
  strings of \<open>test_generate_code_pipeline\<close> are.
\<close>

definition component_text :: "component_ref \<Rightarrow> string" where
  "component_text c = (case c of ByName n \<Rightarrow> [CHR 0x27] @ n @ [CHR 0x27] | ByClass n \<Rightarrow> n)"

definition pipeline_script ::
  "('a, 'g, (string \<times> pvalue) list) pipeline \<Rightarrow> component_ref list \<Rightarrow> string" where
  "pipeline_script p comps =
     (let cls = pipeline_class p;
          base = (case class_bases cls of [] \<Rightarrow> PyClass ''object'' ''builtins'' [] | b # bs \<Rightarrow> b);
          nl = [CHR 0x0A]; tab = [CHR 0x09]; quotes = [CHR 0x22, CHR 0x22, CHR 0x22];
          attrs = map (\<lambda>(k, v). k @ '' = '' @ v) (class_attributes p)
      in ''import json'' @ nl
         @ ''from '' @ class_module base @ '' import '' @ class_name base @ nl
         @ nl @ ''class '' @ class_name cls @ ''('' @ class_name base @ ''):'' @ nl
         @ tab @ ''component_graph = ['' @ nl @ tab @ tab
         @ join ('','' @ nl @ tab @ tab) (map component_text comps) @ nl @ tab @ '']'' @ nl
         @ (if attrs = [] then [] else tab @ join (nl @ tab) attrs @ nl)
         @ nl @ ''parameters = json.loads('' @ quotes
         @ json_dumps 0 (PDict (parameters p)) @ quotes @ '')'' @ nl
         @ ''pipeline = '' @ class_name cls @ ''(parameters)'')"

definition generate_pipeline_code ::
  "('a, 'g, (string \<times> pvalue) list) pipeline \<Rightarrow> exn + string" where
  "generate_pipeline_code p =
     (case component_graph p of
        NonlinearGraph nodes \<Rightarrow>
          Inl (ValueError ''Code generation for nonlinear pipelines is not supported yet'')
      | LinearGraph comps \<Rightarrow>
          (case unserializable (PDict (parameters p)) of
             v # vs \<Rightarrow> Inl (TypeError (''Value '' @ py_repr v @ '' cannot be JSON-serialized''))
           | [] \<Rightarrow> Inr (pipeline_script p comps)))"

section \<open>Concrete inputs\<close>

text \<open>
  A small component graph for the concrete instances below: fitting memorises the
  encoded target, the prediction for a row is its first feature read as a class code,
  and the probability table has one column per training code. Feature tables are the
  column names and the rows.
\<close>

definition toy_ops :: "(string list \<times> int list list, int list, (string \<times> pvalue) list) graph_ops" where
  "toy_ops =
     \<lparr>cg_new = (\<lambda>params seed. []),
      cg_fit = (\<lambda>g X y. Inr (series_values y)),
      cg_predict = (\<lambda>g X. map (\<lambda>row. case row of [] \<Rightarrow> 0 | v # vs \<Rightarrow> v) (snd X)),
      cg_predict_proba =
        (\<lambda>g X. map (\<lambda>c. (c, map (\<lambda>row. if (case row of [] \<Rightarrow> 0 | v # vs \<Rightarrow> v) = c then 1 else 0) (snd X)))
                 (remdups g)),
      cg_feature_names = fst,
      x_len = (\<lambda>X. length (snd X))\<rparr>"

definition toy_class :: pyclass where
  "toy_class = PyClass ''MockBinaryPipeline'' ''test_pipelines''
     [PyClass ''BinaryClassificationPipeline'' ''evalml.pipelines.binary_classification_pipeline'' []]"

definition toy_pipeline :: "(int, int list, (string \<times> pvalue) list) pipeline" where
  "toy_pipeline = init toy_ops toy_class BINARY
      (LinearGraph [ByName ''Imputer'', ByName ''Random Forest Classifier'']) [] [] 0"

definition toy_y :: "int series" where
  "toy_y = \<lparr>series_values = [20, 10, 20], series_name = Some ''target''\<rparr>"

definition toy_X :: "string list \<times> int list list" where
  "toy_X = ([''f''], [[1], [0], [1]])"

text \<open>A binary target with the labels 0 and 1.\<close>

definition toy_y01 :: "int series" where
  "toy_y01 = \<lparr>series_values = [1, 0, 1], series_name = None\<rparr>"

text \<open>
  The toy pipeline after fitting on \<open>toy_y01\<close>, an objective with
  a tunable threshold that is scored on labels, and one without that is scored on
  probabilities.
\<close>

definition toy_fitted :: "(int, int list, (string \<times> pvalue) list) pipeline" where
  "toy_fitted = toy_pipeline\<lparr>encoder_classes := Some [0, 1], input_target_name := None,
      component_graph_instance := [1, 0, 1], input_feature_names := Some [''f''], is_fitted := True\<rparr>"

definition toy_f1 :: "(string list \<times> int list list, int) objective" where
  "toy_f1 =
     \<lparr>obj_name = ''F1'', score_needs_proba = False,
      is_defined_for_problem_type = (\<lambda>pt. pt = BINARY \<or> pt = TIME_SERIES_BINARY),
      can_optimize_threshold = True,
      objective_score = (\<lambda>y pred X. case pred of
          Labels l \<Rightarrow> Inr (real (length (filter (\<lambda>(a, b). a = b) (zip y l))))
        | Probabilities t \<Rightarrow> Inl (TypeError ''labels expected'')),
      objective_optimize_threshold = (\<lambda>proba targets X. case proba of [] \<Rightarrow> 1 / 2 | v # vs \<Rightarrow> v / 4)\<rparr>"

definition toy_log_loss :: "(string list \<times> int list list, int) objective" where
  "toy_log_loss =
     \<lparr>obj_name = ''Log Loss Binary'', score_needs_proba = True,
      is_defined_for_problem_type = (\<lambda>pt. pt = BINARY \<or> pt = TIME_SERIES_BINARY),
      can_optimize_threshold = False,
      objective_score = (\<lambda>y pred X. case pred of
          Labels l \<Rightarrow> Inl (TypeError ''probabilities expected'')
        | Probabilities t \<Rightarrow> Inr (real (length t))),
      objective_optimize_threshold = (\<lambda>proba targets X. 1 / 2)\<rparr>"

text \<open>The toy pipeline after fitting on \<open>toy_y\<close>, whose labels are 10 and 20.\<close>

definition toy_fitted10 :: "(int, int list, (string \<times> pvalue) list) pipeline" where
  "toy_fitted10 = toy_pipeline\<lparr>encoder_classes := Some [10, 20], input_target_name := Some ''target'',
      component_graph_instance := [1, 0, 1], input_feature_names := Some [''f''], is_fitted := True\<rparr>"

text \<open>
  The objectives of \<open>test_score_binary_objective_error\<close>: F1 with a scoring function
  that raises, and a precision-like objective that scores 1 on exact predictions.
\<close>

definition toy_f1_failing :: "(string list \<times> int list list, int) objective" where
  "toy_f1_failing = toy_f1\<lparr>objective_score := (\<lambda>y pred X. Inl (Exception ''finna kabooom''))\<rparr>"

definition toy_precision :: "(string list \<times> int list list, int) objective" where
  "toy_precision = toy_f1\<lparr>obj_name := ''Precision'', can_optimize_threshold := False,
      objective_score := (\<lambda>y pred X. case pred of
          Labels l \<Rightarrow> Inr (if l = y then 1 else 0)
        | Probabilities t \<Rightarrow> Inl (TypeError ''labels expected''))\<rparr>"

text \<open>
  As in \<open>test_pipeline_equality_different_fitted_data\<close>: the features with a column
  of zeros appended, and the toy pipeline fitted on them. \<open>toy_subclass\<close> is a subclass
  of the toy pipeline's class that declares nothing of its own.
\<close>

definition toy_X2 :: "string list \<times> int list list" where
  "toy_X2 = ([''f'', ''zeros''], [[1, 0], [0, 0], [1, 0]])"

definition toy_fitted2 :: "(int, int list, (string \<times> pvalue) list) pipeline" where
  "toy_fitted2 = toy_fitted\<lparr>input_feature_names := Some [''f'', ''zeros'']\<rparr>"

definition toy_subclass :: pyclass where
  "toy_subclass = PyClass ''MockPipelineSubclass'' ''test_pipelines'' [toy_class]"

text \<open>
  The regression pipeline of \<open>test_generate_code_pipeline\<close> with its default
  parameters, and the code that test expects for it.
\<close>

definition mock_regression_class :: pyclass where
  "mock_regression_class = PyClass ''MockRegressionPipeline'' ''test_pipelines''
     [PyClass ''RegressionPipeline'' ''evalml.pipelines.regression_pipeline'' []]"

definition mock_parameters :: "(string \<times> pvalue) list" where
  "mock_parameters =
     [(''Imputer'', PDict [(''categorical_impute_strategy'', PStr ''most_frequent''),
                           (''numeric_impute_strategy'', PStr ''mean''),
                           (''categorical_fill_value'', PNone),
                           (''numeric_fill_value'', PNone)]),
      (''Random Forest Regressor'', PDict [(''n_estimators'', PInt 100),
                                           (''max_depth'', PInt 6),
                                           (''n_jobs'', PInt (- 1))])]"

definition mock_regression_pipeline :: "(int, int list, (string \<times> pvalue) list) pipeline" where
  "mock_regression_pipeline = init toy_ops mock_regression_class REGRESSION
      (LinearGraph [ByName ''Imputer'', ByName ''Random Forest Regressor''])
      [(''name'', [CHR 0x27] @ ''Mock Regression Pipeline'' @ [CHR 0x27])]
      mock_parameters 0"

definition expected_code :: string where
  "expected_code =
     ''import json'' @ [CHR 0x0A] @
     ''from evalml.pipelines.regression_pipeline import RegressionPipeline'' @
     [CHR 0x0A, CHR 0x0A] @ ''class MockRegressionPipeline(RegressionPipeline):'' @
     [CHR 0x0A, CHR 0x09] @ ''component_graph = ['' @
     [CHR 0x0A, CHR 0x09, CHR 0x09, CHR 0x27] @ ''Imputer'' @ [CHR 0x27] @ '','' @
     [CHR 0x0A, CHR 0x09, CHR 0x09, CHR 0x27] @ ''Random Forest Regressor'' @
     [CHR 0x27, CHR 0x0A, CHR 0x09] @ '']'' @ [CHR 0x0A, CHR 0x09] @ ''name = '' @
     [CHR 0x27] @ ''Mock Regression Pipeline'' @ [CHR 0x27, CHR 0x0A, CHR 0x0A] @
     ''parameters = json.loads('' @ [CHR 0x22, CHR 0x22, CHR 0x22] @ ''{'' @
     [CHR 0x0A, CHR 0x09, CHR 0x22] @ ''Imputer'' @ [CHR 0x22] @ '': {'' @
     [CHR 0x0A, CHR 0x09, CHR 0x09, CHR 0x22] @ ''categorical_impute_strategy'' @ [CHR 0x22] @
     '': '' @ [CHR 0x22] @ ''most_frequent'' @ [CHR 0x22] @ '','' @
     [CHR 0x0A, CHR 0x09, CHR 0x09, CHR 0x22] @ ''numeric_impute_strategy'' @ [CHR 0x22] @
     '': '' @ [CHR 0x22] @ ''mean'' @ [CHR 0x22] @ '','' @
     [CHR 0x0A, CHR 0x09, CHR 0x09, CHR 0x22] @ ''categorical_fill_value'' @ [CHR 0x22] @
     '': null,'' @ [CHR 0x0A, CHR 0x09, CHR 0x09, CHR 0x22] @ ''numeric_fill_value'' @
     [CHR 0x22] @ '': null'' @ [CHR 0x0A, CHR 0x09] @ ''},'' @
     [CHR 0x0A, CHR 0x09, CHR 0x22] @ ''Random Forest Regressor'' @ [CHR 0x22] @ '': {'' @
     [CHR 0x0A, CHR 0x09, CHR 0x09, CHR 0x22] @ ''n_estimators'' @ [CHR 0x22] @ '': 100,'' @
     [CHR 0x0A, CHR 0x09, CHR 0x09, CHR 0x22] @ ''max_depth'' @ [CHR 0x22] @ '': 6,'' @
     [CHR 0x0A, CHR 0x09, CHR 0x09, CHR 0x22] @ ''n_jobs'' @ [CHR 0x22] @ '': -1'' @
     [CHR 0x0A, CHR 0x09] @ ''}'' @ [CHR 0x0A] @ ''}'' @ [CHR 0x22, CHR 0x22, CHR 0x22] @
     '')'' @ [CHR 0x0A] @ ''pipeline = MockRegressionPipeline(parameters)''"

text \<open>
  A pipeline with a non-linear component graph, and the pipeline of
  \<open>test_generate_code_pipeline_json_errors\<close> whose custom estimator has an array
  among its parameters.
\<close>

definition mock_nonlinear_pipeline :: "(int, int list, (string \<times> pvalue) list) pipeline" where
  "mock_nonlinear_pipeline = toy_pipeline\<lparr>component_graph := NonlinearGraph
      [(''Imputer'', ByName ''Imputer'', []),
       (''OneHot'', ByName ''One Hot Encoder'', [''Imputer.x'']),
       (''Random Forest'', ByName ''Random Forest Classifier'', [''OneHot.x'']),
       (''Elastic Net'', ByName ''Elastic Net Classifier'', [''OneHot.x'']),
       (''Logistic Regression'', ByName ''Logistic Regression Classifier'', [''Random Forest'', ''Elastic Net''])]\<rparr>"

definition mock_array_pipeline :: "(int, int list, (string \<times> pvalue) list) pipeline" where
  "mock_array_pipeline = toy_pipeline\<lparr>
      component_graph := LinearGraph [ByName ''Imputer'', ByClass ''CustomEstimator''],
      parameters := [(''Imputer'', PDict [(''numeric_impute_strategy'', PStr ''mean'')]),
                     (''My Custom Estimator'', PDict [(''random_arg'', PBool False),
                                                      (''numpy_arg'', PObject ''array([0])'')])]\<rparr>"



text \<open>
  The pipeline fitted on \<open>toy_y\<close> with the threshold set to 0.5, and a component graph
  like the toy one whose estimator gives every row the same graded probabilities: 0.7,
  0.4 and 0.7 for the second class.
\<close>

definition toy_tuned10 :: "(int, int list, (string \<times> pvalue) list) pipeline" where
  "toy_tuned10 = toy_fitted10\<lparr>threshold := Some (1 / 2)\<rparr>"

definition soft_ops :: "(string list \<times> int list list, int list, (string \<times> pvalue) list) graph_ops" where
  "soft_ops = toy_ops\<lparr>cg_predict_proba :=
      (\<lambda>g X. [(0, [3 / 10, 6 / 10, 3 / 10]), (1, [7 / 10, 4 / 10, 7 / 10])])\<rparr>"

section \<open>Auxiliary lemmas\<close>

subsection \<open>Positions in the class list\<close>

lemma nth_index_of: "v \<in> set cs \<Longrightarrow> cs ! index_of cs v = v"
  by (induction cs) auto

lemma index_of_less: "v \<in> set cs \<Longrightarrow> index_of cs v < length cs"
  by (induction cs) auto

lemma index_of_nth: "distinct cs \<Longrightarrow> i < length cs \<Longrightarrow> index_of cs (cs ! i) = i"
proof (induction cs arbitrary: i)
  case Nil
  then show ?case by simp
next
  case (Cons c cs)
  show ?case
  proof (cases i)
    case 0
    then show ?thesis by simp
  next
    case (Suc j)
    with Cons.prems have "cs ! j \<in> set cs" "c \<notin> set cs" by auto
    then have "c \<noteq> cs ! j" by auto
    with Suc Cons show ?thesis by simp
  qed
qed

subsection \<open>The label encoder\<close>

lemma transform_fitted:
  "set ys \<subseteq> set cs \<Longrightarrow>
   LabelEncoder_transform (Some cs) ys = Inr (map (\<lambda>v. int (index_of cs v)) ys)"
  by (auto simp: LabelEncoder_transform_def list_all_iff)

lemma transform_unseen:
  "\<not> set ys \<subseteq> set cs \<Longrightarrow>
   LabelEncoder_transform (Some cs) ys = Inl (ValueError ''y contains previously unseen labels'')"
  by (auto simp: LabelEncoder_transform_def list_all_iff)

lemma inverse_transform_transform:
  assumes "set ys \<subseteq> set cs"
  shows "LabelEncoder_inverse_transform (Some cs) (map (\<lambda>v. int (index_of cs v)) ys) = Inr ys"
proof -
  have "list_all (\<lambda>c. 0 \<le> c \<and> c < int (length cs)) (map (\<lambda>v. int (index_of cs v)) ys)"
    using assms index_of_less[of _ cs] by (auto simp: list_all_iff)
  moreover have "map (\<lambda>c. cs ! nat c) (map (\<lambda>v. int (index_of cs v)) ys) = ys"
    using assms by (induction ys) (auto simp: nth_index_of)
  ultimately show ?thesis by (simp add: LabelEncoder_inverse_transform_def)
qed

lemma inverse_transform_labels:
  assumes "LabelEncoder_inverse_transform (Some cs) codes = Inr labels"
  shows "set labels \<subseteq> set cs"
proof -
  from assms have r: "\<forall>c\<in>set codes. 0 \<le> c \<and> c < int (length cs)"
    and l: "labels = map (\<lambda>c. cs ! nat c) codes"
    by (auto simp: LabelEncoder_inverse_transform_def list_all_iff split: if_splits)
  have "cs ! nat c \<in> set cs" if "c \<in> set codes" for c
  proof -
    from r that have "nat c < length cs" by auto
    then show ?thesis by simp
  qed
  with l show ?thesis by auto
qed

subsection \<open>Fitting\<close>

lemma fit_result:
  fixes p :: "('a::linorder, 'g, 'p) pipeline"
  shows "fit ops p X y =
     fit_private ops (p\<lparr>encoder_classes := Some (sorted_list_of_set (set (series_values y)))\<rparr>) X
        \<lparr>series_values = map (\<lambda>v. int (index_of (sorted_list_of_set (set (series_values y))) v)) (series_values y),
         series_name = series_name y\<rparr>"
  by (simp add: fit_def Let_def LabelEncoder_fit_def encode_targets_def transform_fitted)

lemma toy_classes: "sorted_list_of_set (set (series_values toy_y)) = [10, 20]"
proof -
  have "sorted_list_of_set (set [20, 10, 20::int]) = sort (remdups [20, 10, 20])"
    by (rule sorted_list_of_set_sort_remdups)
  then show ?thesis by (simp add: toy_y_def)
qed

lemma fit_fitted:
  fixes p :: "('a::linorder, 'g, 'p) pipeline"
  assumes "fit ops p X y = Inr p'"
  shows "is_fitted p'"
    and "encoder_classes p' = Some (sorted_list_of_set (set (series_values y)))"
    and "input_target_name p' = series_name y"
    and "input_feature_names p' = Some (cg_feature_names ops X)"
    and "threshold p' = threshold p"
    and "problem_type p' = problem_type p"
  using assms unfolding fit_result by (auto simp: fit_private_def split: sum.splits)

lemma toy_fit01:
  "fit toy_ops toy_pipeline toy_X toy_y01 =
     Inr (toy_pipeline\<lparr>encoder_classes := Some [0, 1], input_target_name := None,
           component_graph_instance := [1, 0, 1], input_feature_names := Some [''f''], is_fitted := True\<rparr>)"
proof -
  have "sorted_list_of_set (set [1, 0, 1::int]) = sort (remdups [1, 0, 1])"
    by (rule sorted_list_of_set_sort_remdups)
  then show ?thesis
    unfolding fit_result
    by (simp add: toy_y01_def fit_private_def toy_ops_def toy_X_def toy_pipeline_def init_def)
qed

lemma toy_fit_fitted: "fit toy_ops toy_pipeline toy_X toy_y01 = Inr toy_fitted"
  unfolding toy_fitted_def by (rule toy_fit01)

lemma toy_fit10: "fit toy_ops toy_pipeline toy_X toy_y = Inr toy_fitted10"
  unfolding fit_result toy_classes
  by (simp add: toy_y_def fit_private_def toy_ops_def toy_X_def toy_pipeline_def init_def toy_fitted10_def)

lemma soft_fit:
  "fit soft_ops (toy_pipeline\<lparr>threshold := t\<rparr>) toy_X toy_y = Inr (toy_fitted10\<lparr>threshold := t\<rparr>)"
  unfolding fit_result toy_classes
  by (simp add: toy_y_def fit_private_def soft_ops_def toy_ops_def toy_X_def toy_pipeline_def init_def
      toy_fitted10_def)

lemma soft_proba:
  "predict_proba soft_ops (toy_fitted10\<lparr>threshold := t\<rparr>) toy_X
     = Inr [(10, [3 / 10, 6 / 10, 3 / 10]), (20, [7 / 10, 4 / 10, 7 / 10])]"
  by (simp add: predict_proba_def toy_fitted10_def toy_pipeline_def init_def soft_ops_def toy_ops_def
      set_columns_def)

lemma toy_proba10:
  "predict_proba toy_ops (toy_fitted10\<lparr>threshold := t\<rparr>) toy_X = Inr [(10, [0, 1, 0]), (20, [1, 0, 1])]"
  by (simp add: predict_proba_def toy_fitted10_def toy_pipeline_def init_def toy_ops_def toy_X_def
      set_columns_def)

subsection \<open>Prediction\<close>

lemma predict_private_graph:
  "problem_type p \<noteq> BINARY \<or> threshold p = None \<Longrightarrow>
   predict_private ops p X = ([Call_predict], Inr (cg_predict ops (component_graph_instance p) X))"
  by (auto simp: predict_private_def)

lemma predict_private_threshold:
  "problem_type p = BINARY \<Longrightarrow> threshold p = Some t \<Longrightarrow>
   predict_private ops p X =
     ([Call_predict, Call_predict_proba],
      case predict_proba ops p X of
        Inl e \<Rightarrow> Inl e
      | Inr ypred_proba \<Rightarrow>
          (case iloc_column ypred_proba 1 of
             Inl e \<Rightarrow> Inl e
           | Inr column \<Rightarrow> Inr (map (\<lambda>v. if t < v then 1 else 0) column)))"
  by (simp add: predict_private_def)

lemma predict_private_calls:
  "fst (predict_private ops p X) =
     Call_predict # (if problem_type p = BINARY \<and> threshold p \<noteq> None then [Call_predict_proba] else [])"
  by (auto simp: predict_private_def split: option.splits)

lemma predict_decoded:
  assumes "is_fitted p" and "encoder_classes p = Some cs"
    and "snd (predict_private ops p X) = Inr codes"
    and "list_all (\<lambda>c. 0 \<le> c \<and> c < int (length cs)) codes"
  shows "predict ops p X = Inr \<lparr>series_values = map (\<lambda>c. cs ! nat c) codes, series_name = input_target_name p\<rparr>"
  using assms by (simp add: predict_def decode_targets_def LabelEncoder_inverse_transform_def)

lemma predict_labels:
  assumes "encoder_classes p = Some cs" and "predict ops p X = Inr r"
  shows "set (series_values r) \<subseteq> set cs \<and> series_name r = input_target_name p"
proof -
  from assms obtain codes labels where
    l: "LabelEncoder_inverse_transform (Some cs) codes = Inr labels"
    and r: "r = \<lparr>series_values = labels, series_name = input_target_name p\<rparr>"
    by (auto simp: predict_def decode_targets_def split: sum.splits if_splits)
  from inverse_transform_labels[OF l] r show ?thesis by simp
qed

subsection \<open>Threshold tuning\<close>

lemma tune_not_permitted:
  "\<not> (is_binary pt \<and> is_defined_for_problem_type ob pt \<and> can_optimize_threshold ob) \<Longrightarrow>
   tune_binary_threshold ops pipeline ob pt Xt yt = (pipeline, None)"
  by (auto simp: tune_binary_threshold_def)

lemma tune_no_data:
  "is_binary pt \<and> is_defined_for_problem_type ob pt \<and> can_optimize_threshold ob \<Longrightarrow>
   tune_binary_threshold ops pipeline ob pt None yt = (pipeline\<lparr>threshold := Some (1 / 2)\<rparr>, None)"
  by (simp add: tune_binary_threshold_def truth_value_def)

lemma tune_empty_data:
  "is_binary pt \<and> is_defined_for_problem_type ob pt \<and> can_optimize_threshold ob \<Longrightarrow>
   x_len ops X = 0 \<Longrightarrow>
   tune_binary_threshold ops pipeline ob pt (Some X) yt = (pipeline\<lparr>threshold := Some (1 / 2)\<rparr>, None)"
  by (simp add: tune_binary_threshold_def truth_value_def)

lemma tune_with_data:
  "is_binary pt \<and> is_defined_for_problem_type ob pt \<and> can_optimize_threshold ob \<Longrightarrow>
   x_len ops X \<noteq> 0 \<Longrightarrow>
   predict_proba ops (pipeline\<lparr>threshold := Some (1 / 2)\<rparr>) X = Inr proba \<Longrightarrow>
   iloc_column proba 1 = Inr column \<Longrightarrow>
   tune_binary_threshold ops pipeline ob pt (Some X) yt =
     (case optimize_threshold (pipeline\<lparr>threshold := Some (1 / 2)\<rparr>) X yt column ob of
        Inl e \<Rightarrow> (pipeline\<lparr>threshold := Some (1 / 2)\<rparr>, Some e)
      | Inr p2 \<Rightarrow> (p2, None))"
  by (simp add: tune_binary_threshold_def truth_value_def Let_def split: sum.splits)

lemma tune_proba_raises:
  "is_binary pt \<and> is_defined_for_problem_type ob pt \<and> can_optimize_threshold ob \<Longrightarrow>
   x_len ops X \<noteq> 0 \<Longrightarrow>
   predict_proba ops (pipeline\<lparr>threshold := Some (1 / 2)\<rparr>) X = Inl e \<Longrightarrow>
   tune_binary_threshold ops pipeline ob pt (Some X) yt = (pipeline\<lparr>threshold := Some (1 / 2)\<rparr>, Some e)"
  by (simp add: tune_binary_threshold_def truth_value_def Let_def)

lemma tune_column_raises:
  "is_binary pt \<and> is_defined_for_problem_type ob pt \<and> can_optimize_threshold ob \<Longrightarrow>
   x_len ops X \<noteq> 0 \<Longrightarrow>
   predict_proba ops (pipeline\<lparr>threshold := Some (1 / 2)\<rparr>) X = Inr proba \<Longrightarrow>
   iloc_column proba 1 = Inl e \<Longrightarrow>
   tune_binary_threshold ops pipeline ob pt (Some X) yt = (pipeline\<lparr>threshold := Some (1 / 2)\<rparr>, Some e)"
  by (simp add: tune_binary_threshold_def truth_value_def Let_def)

lemma tune_error_state:
  "is_binary pt \<and> is_defined_for_problem_type ob pt \<and> can_optimize_threshold ob \<Longrightarrow>
   snd (tune_binary_threshold ops pipeline ob pt Xt yt) \<noteq> None \<Longrightarrow>
   fst (tune_binary_threshold ops pipeline ob pt Xt yt) = pipeline\<lparr>threshold := Some (1 / 2)\<rparr>"
  by (auto simp: tune_binary_threshold_def truth_value_def Let_def split: option.splits sum.splits if_splits)

lemma optimize_threshold_sets:
  "optimize_threshold p X y col ob = Inr p2 \<Longrightarrow> threshold p2 \<noteq> None"
  by (auto simp: optimize_threshold_def split: if_splits sum.splits)

lemma tune_threshold_set:
  assumes g: "is_binary pt \<and> is_defined_for_problem_type ob pt \<and> can_optimize_threshold ob"
  shows "threshold (fst (tune_binary_threshold ops pipeline ob pt Xt yt)) \<noteq> None"
proof (cases Xt)
  case None
  then show ?thesis using tune_no_data[OF g, of ops pipeline yt] by simp
next
  case X: (Some X)
  show ?thesis
  proof (cases "x_len ops X = 0")
    case True
    then show ?thesis using X tune_empty_data[OF g, of ops X pipeline yt] by simp
  next
    case len: False
    show ?thesis
    proof (cases "predict_proba ops (pipeline\<lparr>threshold := Some (1 / 2)\<rparr>) X")
      case (Inl e)
      then show ?thesis using X tune_proba_raises[OF g len Inl, of yt] by simp
    next
      case proba: (Inr proba)
      show ?thesis
      proof (cases "iloc_column proba 1")
        case (Inl e)
        then show ?thesis using X tune_column_raises[OF g len proba Inl, of yt] by simp
      next
        case col: (Inr column)
        show ?thesis
        proof (cases "optimize_threshold (pipeline\<lparr>threshold := Some (1 / 2)\<rparr>) X yt column ob")
          case (Inl e)
          then show ?thesis using X tune_with_data[OF g len proba col, of yt] by simp
        next
          case (Inr p2)
          then show ?thesis
            using X tune_with_data[OF g len proba col, of yt] optimize_threshold_sets[OF Inr] by simp
        qed
      qed
    qed
  qed
qed

lemma toy_proba: "predict_proba toy_ops (toy_fitted\<lparr>threshold := t\<rparr>) toy_X = Inr [(0, [0, 1, 0]), (1, [1, 0, 1])]"
  by (simp add: predict_proba_def toy_fitted_def toy_pipeline_def init_def toy_ops_def toy_X_def
      set_columns_def)

subsection \<open>Scoring\<close>

lemma encode_targets_error: "encode_targets p y = Inl e \<Longrightarrow> \<exists>m. e = ValueError m"
  by (auto simp: encode_targets_def split: sum.splits)

lemma compute_predictions_result:
  assumes "list_ex score_needs_proba objectives \<longrightarrow> predict_proba ops p X = Inr proba"
    and "list_ex (\<lambda>ob. \<not> score_needs_proba ob) objectives \<longrightarrow> snd (predict_private ops p X) = Inr predictions"
  shows "compute_predictions ops p X y objectives =
     ((if list_ex score_needs_proba objectives then [Call_predict_proba] else [])
      @ (if list_ex (\<lambda>ob. \<not> score_needs_proba ob) objectives then fst (predict_private ops p X) else []),
      Inr ((if list_ex (\<lambda>ob. \<not> score_needs_proba ob) objectives then Some predictions else None),
           (if list_ex score_needs_proba objectives then Some proba else None)))"
  using assms by (cases "predict_private ops p X") (auto simp: compute_predictions_def)

lemma compute_predictions_proba_raises:
  "list_ex score_needs_proba objectives \<Longrightarrow> predict_proba ops p X = Inl e \<Longrightarrow>
   compute_predictions ops p X y objectives = ([Call_predict_proba], Inl e)"
  by (simp add: compute_predictions_def)

lemma compute_predictions_predict_raises:
  "list_ex score_needs_proba objectives \<longrightarrow> predict_proba ops p X = Inr proba \<Longrightarrow>
   list_ex (\<lambda>ob. \<not> score_needs_proba ob) objectives \<Longrightarrow>
   snd (predict_private ops p X) = Inl e \<Longrightarrow>
   compute_predictions ops p X y objectives =
     ((if list_ex score_needs_proba objectives then [Call_predict_proba] else [])
      @ fst (predict_private ops p X), Inl e)"
  by (cases "predict_private ops p X") (auto simp: compute_predictions_def)
















lemma toy_score_values:
  "score toy_ops toy_fitted toy_X toy_y01 [toy_f1_failing, toy_precision]
     = Inl (PipelineScoreError [(''F1'', Exception ''finna kabooom'')] [(''Precision'', 1)]
              (''F1 encountered an error with message (finna kabooom)'' @ [CHR 0x0A]))"
  "score toy_ops toy_fitted toy_X toy_y01 [toy_precision] = Inr [(''Precision'', 1)]"
  by (simp_all add: score_def score_logged_def score_inputs_def compute_predictions_def encode_targets_def
      LabelEncoder_transform_def predict_private_def score_all_objectives_def score_objective_def
      combined_message_def
      toy_fitted_def toy_pipeline_def init_def toy_ops_def toy_X_def toy_y01_def
      toy_f1_failing_def toy_precision_def toy_f1_def)

subsection \<open>Equality\<close>

lemma toy_fit2: "fit toy_ops toy_pipeline toy_X2 toy_y01 = Inr toy_fitted2"
proof -
  have "sorted_list_of_set (set [1, 0, 1::int]) = sort (remdups [1, 0, 1])"
    by (rule sorted_list_of_set_sort_remdups)
  then show ?thesis
    unfolding fit_result
    by (simp add: toy_y01_def fit_private_def toy_ops_def toy_X2_def toy_pipeline_def init_def
        toy_fitted2_def toy_fitted_def)
qed

lemma class_ancestors_size: "d \<in> set (class_ancestors c) \<Longrightarrow> size d < size c"
proof (induction c arbitrary: d)
  case (PyClass n m bs)
  from PyClass.prems consider "d \<in> set bs" | b where "b \<in> set bs" "d \<in> set (class_ancestors b)"
    by auto
  then show ?case
  proof cases
    case 1
    then have "size d \<le> size_list size bs" by (simp add: size_list_estimation')
    then show ?thesis by simp
  next
    case 2
    then have "size d < size b" by (rule PyClass.IH)
    moreover from 2 have "size b \<le> size_list size bs" by (simp add: size_list_estimation')
    ultimately show ?thesis by simp
  qed
qed

lemma subclass_not_parent: "d \<in> set (class_ancestors c) \<Longrightarrow> c \<noteq> d"
  using class_ancestors_size by fastforce

subsection \<open>Generated-code export\<close>

text \<open>The model yields the code that \<open>test_generate_code_pipeline\<close> expects.\<close>

lemma generate_mock_regression: "generate_pipeline_code mock_regression_pipeline = Inr expected_code"
  by (simp add: generate_pipeline_code_def pipeline_script_def mock_regression_pipeline_def init_def
      mock_parameters_def mock_regression_class_def component_text_def json_string_def
      json_escape_char_def tabs_def int_to_string_def expected_code_def Let_def)

lemma unserializable_objects: "u \<in> set (unserializable v) \<Longrightarrow> \<exists>r. u = PObject r"
  by (induction v rule: unserializable.induct) auto

lemma pipeline_script_json:
  "sublist (json_dumps 0 (PDict (parameters p))) (pipeline_script p comps)"
proof -
  obtain pre post where "pipeline_script p comps = pre @ json_dumps 0 (PDict (parameters p)) @ post"
    unfolding pipeline_script_def Let_def by (metis append.assoc)
  then show ?thesis by simp
qed

section \<open>The claims\<close>

text \<open>
  Claim C3, as amended. For every classification pipeline, feature table \<open>X\<close> and target
  series \<open>y\<close>, \<open>fit(X, y)\<close> fits the label encoder, whose classes are the distinct
  values of \<open>y\<close> in sorted order, the class at position \<open>i\<close> encoded as the integer
  \<open>i\<close>, and then fits the component graph on the integer-encoded target: it returns the
  fitted pipeline exactly when the graph's fit returns, and raises the graph's exception
  otherwise. After a fit that returned, decoding the encoded \<open>y\<close> gives \<open>y\<close> back,
  and whatever \<open>predict(X')\<close> returns is a series named by the stored
  \<open>input_target_name\<close> (the name of \<open>y\<close>) that holds only labels of the fit-time
  class set. Unless the pipeline is a binary one with a threshold set, \<open>_predict\<close> gives
  the graph's integer predictions, and \<open>predict\<close> returns them decoded to labels
  whenever they are class codes (\<open>0 \<le> c < n_classes\<close>). For a binary pipeline with
  a threshold set (\<open>fit\<close> keeps the threshold) \<open>_predict\<close> answers, row by row,
  whether the probability in the second column of \<open>predict_proba\<close> exceeds the
  threshold, and \<open>predict\<close> returns the second class where it does and the first
  class where it does not.

  The claim as stated fails, as the counterexample after the witness shows: for a binary
  pipeline with the threshold 0.8, fitted on the labels 10 and 20, the graph predicts the
  codes \<open>[1, 0, 1]\<close>, which decode to \<open>[20, 10, 20]\<close>, but \<open>predict\<close> returns
  \<open>[10, 10, 10]\<close>: the probabilities of the second class are 0.7, 0.4 and 0.7, and
  none exceeds the threshold.
\<close>

theorem fit_encode_decode_predict:
  fixes p :: "('a::linorder, 'g, 'p) pipeline" and y :: "'a series"
  defines "cs \<equiv> sorted_list_of_set (set (series_values y))"
  defines "y_enc \<equiv> \<lparr>series_values = map (\<lambda>v. int (index_of cs v)) (series_values y),
                     series_name = series_name y\<rparr>"
  shows "sorted cs \<and> distinct cs \<and> set cs = set (series_values y)
       \<and> fit ops p X y =
           (case cg_fit ops (component_graph_instance p) X y_enc of
              Inl e \<Rightarrow> Inl e
            | Inr g \<Rightarrow> Inr (p\<lparr>encoder_classes := Some cs, input_target_name := series_name y,
                               component_graph_instance := g,
                               input_feature_names := Some (cg_feature_names ops X),
                               is_fitted := True\<rparr>))
       \<and> (fit ops p X y = Inr p' \<longrightarrow>
            encoder_classes p' = Some cs
            \<and> (\<forall>i<length cs. LabelEncoder_transform (encoder_classes p') [cs ! i] = Inr [int i])
            \<and> encode_targets p' y = Inr y_enc
            \<and> cg_fit ops (component_graph_instance p) X y_enc = Inr (component_graph_instance p')
            \<and> decode_targets p' (series_values y_enc) = Inr (series_values y)
            \<and> input_target_name p' = series_name y
            \<and> (problem_type p \<noteq> BINARY \<or> threshold p = None \<longrightarrow>
                 snd (predict_private ops p' X') = Inr (cg_predict ops (component_graph_instance p') X')
                 \<and> (list_all (\<lambda>c. 0 \<le> c \<and> c < int (length cs)) (cg_predict ops (component_graph_instance p') X')
                      \<longrightarrow> predict ops p' X' =
                            Inr \<lparr>series_values = map (\<lambda>c. cs ! nat c) (cg_predict ops (component_graph_instance p') X'),
                                 series_name = series_name y\<rparr>))
            \<and> (problem_type p = BINARY \<and> threshold p = Some t
                 \<and> predict_proba ops p' X' = Inr proba \<and> iloc_column proba 1 = Inr column \<longrightarrow>
                 snd (predict_private ops p' X') = Inr (map (\<lambda>v. if t < v then 1 else 0) column)
                 \<and> predict ops p' X' =
                      Inr \<lparr>series_values = map (\<lambda>v. if t < v then cs ! 1 else cs ! 0) column,
                           series_name = series_name y\<rparr>)
            \<and> (\<forall>r. predict ops p' X' = Inr r
                   \<longrightarrow> set (series_values r) \<subseteq> set (series_values y) \<and> series_name r = series_name y))"
proof -
  have set_cs: "set cs = set (series_values y)" and srt: "sorted cs" and dist: "distinct cs"
    by (simp_all add: cs_def)
  have fit: "fit ops p X y =
           (case cg_fit ops (component_graph_instance p) X y_enc of
              Inl e \<Rightarrow> Inl e
            | Inr g \<Rightarrow> Inr (p\<lparr>encoder_classes := Some cs, input_target_name := series_name y,
                               component_graph_instance := g,
                               input_feature_names := Some (cg_feature_names ops X),
                               is_fitted := True\<rparr>))"
    unfolding fit_result cs_def y_enc_def by (simp add: fit_private_def split: sum.splits)
  have rest: "encoder_classes p' = Some cs
            \<and> (\<forall>i<length cs. LabelEncoder_transform (encoder_classes p') [cs ! i] = Inr [int i])
            \<and> encode_targets p' y = Inr y_enc
            \<and> cg_fit ops (component_graph_instance p) X y_enc = Inr (component_graph_instance p')
            \<and> decode_targets p' (series_values y_enc) = Inr (series_values y)
            \<and> input_target_name p' = series_name y
            \<and> (problem_type p \<noteq> BINARY \<or> threshold p = None \<longrightarrow>
                 snd (predict_private ops p' X') = Inr (cg_predict ops (component_graph_instance p') X')
                 \<and> (list_all (\<lambda>c. 0 \<le> c \<and> c < int (length cs)) (cg_predict ops (component_graph_instance p') X')
                      \<longrightarrow> predict ops p' X' =
                            Inr \<lparr>series_values = map (\<lambda>c. cs ! nat c) (cg_predict ops (component_graph_instance p') X'),
                                 series_name = series_name y\<rparr>))
            \<and> (problem_type p = BINARY \<and> threshold p = Some t
                 \<and> predict_proba ops p' X' = Inr proba \<and> iloc_column proba 1 = Inr column \<longrightarrow>
                 snd (predict_private ops p' X') = Inr (map (\<lambda>v. if t < v then 1 else 0) column)
                 \<and> predict ops p' X' =
                      Inr \<lparr>series_values = map (\<lambda>v. if t < v then cs ! 1 else cs ! 0) column,
                           series_name = series_name y\<rparr>)
            \<and> (\<forall>r. predict ops p' X' = Inr r
                   \<longrightarrow> set (series_values r) \<subseteq> set (series_values y) \<and> series_name r = series_name y)"
    if f: "fit ops p X y = Inr p'"
  proof -
    note ff = fit_fitted[OF f]
    have fitted: "is_fitted p'" by (rule ff(1))
    have cls: "encoder_classes p' = Some cs" unfolding cs_def by (rule ff(2))
    have name: "input_target_name p' = series_name y" by (rule ff(3))
    have thr: "threshold p' = threshold p" and pt: "problem_type p' = problem_type p"
      by (rule ff(5), rule ff(6))
    have codes: "\<forall>i<length cs. LabelEncoder_transform (encoder_classes p') [cs ! i] = Inr [int i]"
      using dist by (simp add: cls LabelEncoder_transform_def index_of_nth)
    have enc: "encode_targets p' y = Inr y_enc"
      using set_cs by (simp add: encode_targets_def cls transform_fitted y_enc_def)
    have graph: "cg_fit ops (component_graph_instance p) X y_enc = Inr (component_graph_instance p')"
      using f unfolding fit by (auto split: sum.splits)
    have dec: "decode_targets p' (series_values y_enc) = Inr (series_values y)"
      using set_cs by (simp add: decode_targets_def cls y_enc_def inverse_transform_transform)
    have base: "snd (predict_private ops p' X') = Inr (cg_predict ops (component_graph_instance p') X')
                 \<and> (list_all (\<lambda>c. 0 \<le> c \<and> c < int (length cs)) (cg_predict ops (component_graph_instance p') X')
                      \<longrightarrow> predict ops p' X' =
                            Inr \<lparr>series_values = map (\<lambda>c. cs ! nat c) (cg_predict ops (component_graph_instance p') X'),
                                 series_name = series_name y\<rparr>)"
      if b: "problem_type p \<noteq> BINARY \<or> threshold p = None"
    proof -
      from b have "problem_type p' \<noteq> BINARY \<or> threshold p' = None" by (simp add: thr pt)
      then have pp: "snd (predict_private ops p' X') = Inr (cg_predict ops (component_graph_instance p') X')"
        by (simp add: predict_private_graph)
      from predict_decoded[OF fitted cls pp] pp name show ?thesis by simp
    qed
    have thresh: "snd (predict_private ops p' X') = Inr (map (\<lambda>v. if t < v then 1 else 0) column)
                 \<and> predict ops p' X' =
                      Inr \<lparr>series_values = map (\<lambda>v. if t < v then cs ! 1 else cs ! 0) column,
                           series_name = series_name y\<rparr>"
      if b: "problem_type p = BINARY \<and> threshold p = Some t
                 \<and> predict_proba ops p' X' = Inr proba \<and> iloc_column proba 1 = Inr column"
    proof -
      from b have b': "problem_type p' = BINARY" "threshold p' = Some t" by (simp_all add: thr pt)
      from b have pr: "predict_proba ops p' X' = Inr proba" and col: "iloc_column proba 1 = Inr column"
        by simp_all
      have pp: "snd (predict_private ops p' X') = Inr (map (\<lambda>v. if t < v then 1 else 0) column)"
        using pr col by (simp add: predict_private_threshold[OF b'])
      from col have "1 < length proba" by (simp add: iloc_column_def split: if_splits)
      moreover from pr have "length proba = length cs"
        by (auto simp: predict_proba_def fitted cls set_columns_def Let_def split: if_splits)
      ultimately have two: "1 < length cs" by simp
      then have rng: "list_all (\<lambda>c. 0 \<le> c \<and> c < int (length cs)) (map (\<lambda>v. if t < v then 1 else 0) column)"
        by (induction column) auto
      have "map (\<lambda>c. cs ! nat c) (map (\<lambda>v. if t < v then 1 else 0) column)
          = map (\<lambda>v. if t < v then cs ! 1 else cs ! 0) column"
        by simp
      with predict_decoded[OF fitted cls pp rng] pp name show ?thesis by simp
    qed
    have drawn: "set (series_values r) \<subseteq> set (series_values y) \<and> series_name r = series_name y"
      if "predict ops p' X' = Inr r" for r
      using predict_labels[OF cls that] set_cs name by simp
    from cls codes enc graph dec name base thresh drawn show ?thesis by blast
  qed
  from srt dist set_cs fit rest show ?thesis by blast
qed

theorem fit_encode_decode_predict_witness:
  "fit toy_ops toy_pipeline toy_X toy_y = Inr toy_fitted10
   \<and> encoder_classes toy_fitted10 = Some [10, 20]
   \<and> LabelEncoder_transform (encoder_classes toy_fitted10) [20] = Inr [1]
   \<and> encode_targets toy_fitted10 toy_y = Inr \<lparr>series_values = [1, 0, 1], series_name = Some ''target''\<rparr>
   \<and> cg_fit toy_ops (component_graph_instance toy_pipeline) toy_X
        \<lparr>series_values = [1, 0, 1], series_name = Some ''target''\<rparr> = Inr [1, 0, 1]
   \<and> component_graph_instance toy_fitted10 = [1, 0, 1]
   \<and> decode_targets toy_fitted10 [1, 0, 1] = Inr [20, 10, 20]
   \<and> predict toy_ops toy_fitted10 toy_X = Inr \<lparr>series_values = [20, 10, 20], series_name = Some ''target''\<rparr>
   \<and> fit soft_ops (toy_pipeline\<lparr>threshold := Some (1 / 2)\<rparr>) toy_X toy_y
        = Inr (toy_fitted10\<lparr>threshold := Some (1 / 2)\<rparr>)
   \<and> predict soft_ops (toy_fitted10\<lparr>threshold := Some (1 / 2)\<rparr>) toy_X
        = Inr \<lparr>series_values = [20, 10, 20], series_name = Some ''target''\<rparr>"
proof -
  note t1 = fit_encode_decode_predict[of toy_y toy_ops toy_pipeline toy_X toy_fitted10 toy_X,
      unfolded toy_classes]
  have g: "component_graph_instance toy_fitted10 = [1, 0, 1]"
    by (simp add: toy_fitted10_def)
  have b: "problem_type toy_pipeline \<noteq> BINARY \<or> threshold toy_pipeline = None"
    by (simp add: toy_pipeline_def init_def)
  have cp: "cg_predict toy_ops (component_graph_instance toy_fitted10) toy_X = [1, 0, 1]"
    by (simp add: toy_ops_def toy_X_def)
  have yv: "series_values toy_y = [20, 10, 20]" "series_name toy_y = Some ''target''"
    by (simp_all add: toy_y_def)
  from t1 toy_fit10 have c: "encoder_classes toy_fitted10 = Some [10, 20]"
    and i: "\<forall>i<length [10, 20::int]. LabelEncoder_transform (encoder_classes toy_fitted10) [[10, 20] ! i] = Inr [int i]"
    and e: "encode_targets toy_fitted10 toy_y
        = Inr \<lparr>series_values = map (\<lambda>v. int (index_of [10, 20] v)) (series_values toy_y),
               series_name = series_name toy_y\<rparr>"
    and gf: "cg_fit toy_ops (component_graph_instance toy_pipeline) toy_X
        \<lparr>series_values = map (\<lambda>v. int (index_of [10, 20] v)) (series_values toy_y),
         series_name = series_name toy_y\<rparr> = Inr (component_graph_instance toy_fitted10)"
    and d: "decode_targets toy_fitted10 (series_values
        \<lparr>series_values = map (\<lambda>v. int (index_of [10, 20] v)) (series_values toy_y),
         series_name = series_name toy_y\<rparr>) = Inr (series_values toy_y)"
    by blast+
  from i have "LabelEncoder_transform (encoder_classes toy_fitted10) [[10, 20] ! 1] = Inr [int 1]"
    by (rule allE[of _ 1]) simp
  then have i1: "LabelEncoder_transform (encoder_classes toy_fitted10) [20] = Inr [1]"
    by simp
  from t1 toy_fit10 b
  have "list_all (\<lambda>c. 0 \<le> c \<and> c < int (length [10, 20::int])) (cg_predict toy_ops (component_graph_instance toy_fitted10) toy_X)
      \<longrightarrow> predict toy_ops toy_fitted10 toy_X =
          Inr \<lparr>series_values = map (\<lambda>c. [10, 20] ! nat c) (cg_predict toy_ops (component_graph_instance toy_fitted10) toy_X),
               series_name = series_name toy_y\<rparr>"
    by blast
  then have pr: "predict toy_ops toy_fitted10 toy_X
      = Inr \<lparr>series_values = [20, 10, 20], series_name = Some ''target''\<rparr>"
    unfolding cp by (simp add: yv)
  note t2 = fit_encode_decode_predict[of toy_y soft_ops "toy_pipeline\<lparr>threshold := Some (1 / 2)\<rparr>" toy_X
      "toy_fitted10\<lparr>threshold := Some (1 / 2)\<rparr>" toy_X "1 / 2"
      "[(10, [3 / 10, 6 / 10, 3 / 10]), (20, [7 / 10, 4 / 10, 7 / 10])]" "[7 / 10, 4 / 10, 7 / 10]",
      unfolded toy_classes]
  have b2: "problem_type (toy_pipeline\<lparr>threshold := Some (1 / 2)\<rparr>) = BINARY
      \<and> threshold (toy_pipeline\<lparr>threshold := Some (1 / 2)\<rparr>) = Some (1 / 2)"
    by (simp add: toy_pipeline_def init_def)
  have col: "iloc_column [(10::int, [3 / 10, 6 / 10, 3 / 10]), (20, [7 / 10, 4 / 10, 7 / 10])] 1
      = Inr [7 / 10, 4 / 10, 7 / 10]"
    by (simp add: iloc_column_def)
  note rest = t2[THEN conjunct2, THEN conjunct2, THEN conjunct2, THEN conjunct2, THEN mp,
      OF soft_fit[of "Some (1 / 2)"]]
  note thresh = rest[THEN conjunct2, THEN conjunct2, THEN conjunct2, THEN conjunct2, THEN conjunct2,
      THEN conjunct2, THEN conjunct2, THEN conjunct1]
  from thresh b2 soft_proba[of "Some (1 / 2)"] col
  have "predict soft_ops (toy_fitted10\<lparr>threshold := Some (1 / 2)\<rparr>) toy_X =
      Inr \<lparr>series_values = map (\<lambda>v::real. if 1 / 2 < v then [10, 20] ! 1 else [10, 20] ! 0) [7 / 10, 4 / 10, 7 / 10],
           series_name = series_name toy_y\<rparr>"
    by blast
  then have pr2: "predict soft_ops (toy_fitted10\<lparr>threshold := Some (1 / 2)\<rparr>) toy_X
        = Inr \<lparr>series_values = [20, 10, 20], series_name = Some ''target''\<rparr>"
    by (simp add: yv)
  from e have e': "encode_targets toy_fitted10 toy_y = Inr \<lparr>series_values = [1, 0, 1], series_name = Some ''target''\<rparr>"
    by (simp add: yv)
  from gf have gf': "cg_fit toy_ops (component_graph_instance toy_pipeline) toy_X
        \<lparr>series_values = [1, 0, 1], series_name = Some ''target''\<rparr> = Inr [1, 0, 1]"
    by (simp add: yv g)
  from d have d': "decode_targets toy_fitted10 [1, 0, 1] = Inr [20, 10, 20]"
    by (simp add: yv)
  from toy_fit10 c i1 e' gf' g d' pr soft_fit[of "Some (1 / 2)"] pr2 show ?thesis by blast
qed

theorem predict_threshold_counterexample:
  "fit soft_ops (toy_pipeline\<lparr>threshold := Some (4 / 5)\<rparr>) toy_X toy_y
     = Inr (toy_fitted10\<lparr>threshold := Some (4 / 5)\<rparr>)
   \<and> problem_type (toy_fitted10\<lparr>threshold := Some (4 / 5)\<rparr>) = BINARY
   \<and> cg_predict soft_ops (component_graph_instance (toy_fitted10\<lparr>threshold := Some (4 / 5)\<rparr>)) toy_X = [1, 0, 1]
   \<and> decode_targets (toy_fitted10\<lparr>threshold := Some (4 / 5)\<rparr>) [1, 0, 1] = Inr [20, 10, 20]
   \<and> predict_proba soft_ops (toy_fitted10\<lparr>threshold := Some (4 / 5)\<rparr>) toy_X
       = Inr [(10, [3 / 10, 6 / 10, 3 / 10]), (20, [7 / 10, 4 / 10, 7 / 10])]
   \<and> predict soft_ops (toy_fitted10\<lparr>threshold := Some (4 / 5)\<rparr>) toy_X
       = Inr \<lparr>series_values = [10, 10, 10], series_name = Some ''target''\<rparr>"
proof -
  have "predict soft_ops (toy_fitted10\<lparr>threshold := Some (4 / 5)\<rparr>) toy_X
       = Inr \<lparr>series_values = [10, 10, 10], series_name = Some ''target''\<rparr>"
    using soft_proba[of "Some (4 / 5)"]
    by (simp add: predict_def predict_private_def iloc_column_def decode_targets_def
        LabelEncoder_inverse_transform_def toy_fitted10_def toy_pipeline_def init_def)
  moreover have "cg_predict soft_ops (component_graph_instance (toy_fitted10\<lparr>threshold := Some (4 / 5)\<rparr>)) toy_X = [1, 0, 1]"
    by (simp add: soft_ops_def toy_ops_def toy_X_def)
  moreover have "decode_targets (toy_fitted10\<lparr>threshold := Some (4 / 5)\<rparr>) [1, 0, 1] = Inr [20, 10, 20]"
    by (simp add: decode_targets_def LabelEncoder_inverse_transform_def toy_fitted10_def)
  moreover have "problem_type (toy_fitted10\<lparr>threshold := Some (4 / 5)\<rparr>) = BINARY"
    by (simp add: toy_fitted10_def toy_pipeline_def init_def)
  ultimately show ?thesis
    using soft_fit[of "Some (4 / 5)"] soft_proba[of "Some (4 / 5)"] by simp
qed

text \<open>
  Claim C8. For a pipeline fitted on \<open>y\<close>, the table that \<open>predict_proba(X')\<close> returns
  has as its column labels exactly the class labels learned at fit time, the distinct
  values of \<open>y\<close> in sorted order, one column per distinct value; with two labels
  \<open>a < b\<close> (such as 0 and 1) the columns are \<open>[a, b]\<close>. The table is returned, with the
  estimator's probabilities unchanged, whenever the estimator yields one column per
  class (otherwise pandas refuses the renaming).
\<close>

theorem predict_proba_columns:
  fixes p :: "('a::linorder, 'g, 'p) pipeline" and y :: "'a series"
  assumes fitted: "fit ops p X y = Inr p'"
  shows "(length (cg_predict_proba ops (component_graph_instance p') X')
            = card (set (series_values y))
          \<longrightarrow> (\<exists>t. predict_proba ops p' X' = Inr t
                 \<and> map snd t = map snd (cg_predict_proba ops (component_graph_instance p') X')))
       \<and> (\<forall>t. predict_proba ops p' X' = Inr t
            \<longrightarrow> columns t = sorted_list_of_set (set (series_values y))
               \<and> sorted (columns t) \<and> distinct (columns t)
               \<and> set (columns t) = set (series_values y)
               \<and> length (columns t) = card (set (series_values y))
               \<and> (\<forall>a b. a < b \<and> set (series_values y) = {a, b} \<longrightarrow> columns t = [a, b]))"
proof -
  let ?cs = "sorted_list_of_set (set (series_values y))"
  let ?proba = "cg_predict_proba ops (component_graph_instance p') X'"
  have len: "length ?cs = card (set (series_values y))" by simp
  have pp: "predict_proba ops p' X' = set_columns ?proba ?cs"
    using fit_fitted(1,2)[OF fitted] by (simp add: predict_proba_def)
  have ret: "\<exists>t. predict_proba ops p' X' = Inr t \<and> map snd t = map snd ?proba"
    if "length ?proba = card (set (series_values y))"
    using that len by (simp add: pp set_columns_def)
  have cols: "columns t = ?cs" if "predict_proba ops p' X' = Inr t" for t
    using that unfolding pp by (auto simp: set_columns_def columns_def split: if_splits)
  have two: "?cs = [a, b]" if ab: "a < b" and st: "set (series_values y) = {a, b}" for a b
  proof -
    have "sorted_list_of_set (set [a, b]) = sort (remdups [a, b])"
      by (rule sorted_list_of_set_sort_remdups)
    also have "\<dots> = [a, b]" using ab by auto
    finally have "sorted_list_of_set (set [a, b]) = [a, b]" .
    moreover have "set (series_values y) = set [a, b]" using st by simp
    ultimately show ?thesis by (simp only:)
  qed
  show ?thesis
  proof (intro conjI allI impI)
    fix t assume t: "predict_proba ops p' X' = Inr t"
    show "columns t = ?cs" by (rule cols[OF t])
    show "sorted (columns t)" "distinct (columns t)" "set (columns t) = set (series_values y)"
      "length (columns t) = card (set (series_values y))"
      by (simp_all add: cols[OF t])
    fix a b assume "a < b \<and> set (series_values y) = {a, b}"
    then have "a < b" and "set (series_values y) = {a, b}" by simp_all
    then have "?cs = [a, b]" by (rule two)
    then show "columns t = [a, b]" by (simp only: cols[OF t])
  next
    assume "length ?proba = card (set (series_values y))"
    then show "\<exists>t. predict_proba ops p' X' = Inr t \<and> map snd t = map snd ?proba" by (rule ret)
  qed
qed

theorem predict_proba_columns_witness:
  "\<exists>p' t. fit toy_ops toy_pipeline toy_X toy_y01 = Inr p'
      \<and> length (cg_predict_proba toy_ops (component_graph_instance p') toy_X) = card (set (series_values toy_y01))
      \<and> predict_proba toy_ops p' toy_X = Inr t
      \<and> map snd t = [[0, 1, 0], [1, 0, 1]]
      \<and> columns t = [0, 1]"
proof -
  have len: "length (cg_predict_proba toy_ops (component_graph_instance toy_fitted) toy_X)
      = card (set (series_values toy_y01))"
    by (simp add: toy_ops_def toy_fitted_def toy_y01_def card_insert_if)
  have est: "map snd (cg_predict_proba toy_ops (component_graph_instance toy_fitted) toy_X)
      = [[0, 1, 0], [1, 0, 1]]"
    by (simp add: toy_ops_def toy_fitted_def toy_X_def)
  have two: "(0::int) < 1 \<and> set (series_values toy_y01) = {0, 1}"
    by (auto simp: toy_y01_def)
  from predict_proba_columns[OF toy_fit_fitted, of toy_X] len
  obtain t where t: "predict_proba toy_ops toy_fitted toy_X = Inr t"
    and "map snd t = map snd (cg_predict_proba toy_ops (component_graph_instance toy_fitted) toy_X)"
    by blast
  then have m: "map snd t = [[0, 1, 0], [1, 0, 1]]"
    by (simp only: est)
  from predict_proba_columns[OF toy_fit_fitted, of toy_X, THEN conjunct2, THEN spec, THEN mp, OF t]
  have "\<forall>a b. a < b \<and> set (series_values toy_y01) = {a, b} \<longrightarrow> columns t = [a, b]" by simp
  with two have c: "columns t = [0, 1]" by blast
  show ?thesis
    by (rule exI[of _ toy_fitted], rule exI[of _ t]) (simp only: toy_fit_fitted len t m c simp_thms)
qed

text \<open>
  Claim C6, as amended. \<open>optimize_threshold(X, y, y_pred_proba, objective)\<close> passes its
  guard exactly when the problem type is binary and the objective is defined for the
  pipeline's problem type and can optimize its threshold. When the guard fails it raises
  the value error "Problem type must be binary and objective must be optimizable." When
  the guard passes and every target value is one of the classes learned at fit time, it
  sets the threshold to the value of the objective's threshold search over the predicted
  probabilities and the encoded targets, and changes nothing else. When the guard passes
  but some target value was not seen at fit time (or the pipeline was never fitted), the
  encoding raises a value error. In every error case the pipeline, and so its threshold,
  is as it was (an error returns no new state).

  The claim as stated fails, as the counterexample after the witness shows: a fitted
  binary pipeline with a tunable objective and a target holding an unseen label raises
  instead of setting the threshold.
\<close>

theorem optimize_threshold_cases:
  fixes p :: "('a, 'g, 'p) pipeline"
  shows "can_tune_threshold_with_objective p ob =
           (is_binary (problem_type p) \<and> is_defined_for_problem_type ob (problem_type p)
            \<and> can_optimize_threshold ob)
       \<and> (\<not> can_tune_threshold_with_objective p ob \<longrightarrow>
            optimize_threshold p X y y_pred_proba ob =
              Inl (ValueError ''Problem type must be binary and objective must be optimizable.''))
       \<and> (can_tune_threshold_with_objective p ob \<and> encoder_classes p = Some cs
            \<and> set (series_values y) \<subseteq> set cs \<longrightarrow>
            encode_targets p y =
              Inr \<lparr>series_values = map (\<lambda>v. int (index_of cs v)) (series_values y), series_name = series_name y\<rparr>
            \<and> optimize_threshold p X y y_pred_proba ob =
              Inr (p\<lparr>threshold := Some (objective_optimize_threshold ob y_pred_proba
                                        (map (\<lambda>v. int (index_of cs v)) (series_values y)) X)\<rparr>))
       \<and> (can_tune_threshold_with_objective p ob \<and> encoder_classes p = Some cs
            \<and> \<not> set (series_values y) \<subseteq> set cs \<longrightarrow>
            optimize_threshold p X y y_pred_proba ob =
              Inl (ValueError ''y contains previously unseen labels''))
       \<and> (can_tune_threshold_with_objective p ob \<and> encoder_classes p = None \<longrightarrow>
            optimize_threshold p X y y_pred_proba ob =
              Inl (ValueError ''This LabelEncoder instance is not fitted yet.''))"
  by (auto simp: optimize_threshold_def can_tune_threshold_with_objective_def encode_targets_def
      LabelEncoder_transform_def list_all_iff)

theorem optimize_threshold_cases_witness:
  "optimize_threshold toy_fitted toy_X toy_y01 [1, 0, 1] toy_f1 = Inr (toy_fitted\<lparr>threshold := Some (1 / 4)\<rparr>)
   \<and> optimize_threshold toy_fitted toy_X toy_y01 [1, 0, 1] toy_log_loss
       = Inl (ValueError ''Problem type must be binary and objective must be optimizable.'')
   \<and> optimize_threshold toy_fitted toy_X \<lparr>series_values = [1, 2], series_name = None\<rparr> [1, 0] toy_f1
       = Inl (ValueError ''y contains previously unseen labels'')
   \<and> optimize_threshold toy_pipeline toy_X toy_y01 [1, 0, 1] toy_f1
       = Inl (ValueError ''This LabelEncoder instance is not fitted yet.'')"
proof -
  have c1: "can_tune_threshold_with_objective toy_fitted toy_f1"
    and c2: "\<not> can_tune_threshold_with_objective toy_fitted toy_log_loss"
    and c3: "can_tune_threshold_with_objective toy_pipeline toy_f1"
    by (simp_all add: can_tune_threshold_with_objective_def toy_fitted_def toy_pipeline_def init_def
        toy_f1_def toy_log_loss_def is_binary_def)
  have e: "encoder_classes toy_fitted = Some [0, 1]" "encoder_classes toy_pipeline = None"
    by (simp_all add: toy_fitted_def toy_pipeline_def init_def)
  have s1: "set (series_values toy_y01) \<subseteq> set [0, 1]"
    and s2: "\<not> set (series_values \<lparr>series_values = [1, 2::int], series_name = None\<rparr>) \<subseteq> set [0, 1]"
    by (simp_all add: toy_y01_def)
  have a: "optimize_threshold toy_fitted toy_X toy_y01 [1, 0, 1] toy_f1 = Inr (toy_fitted\<lparr>threshold := Some (1 / 4)\<rparr>)"
    using optimize_threshold_cases[of toy_fitted toy_f1 toy_X toy_y01 "[1, 0, 1]" "[0, 1]"] c1 e s1
    by (simp add: toy_f1_def toy_y01_def)
  have b: "optimize_threshold toy_fitted toy_X toy_y01 [1, 0, 1] toy_log_loss
       = Inl (ValueError ''Problem type must be binary and objective must be optimizable.'')"
    using optimize_threshold_cases[of toy_fitted toy_log_loss toy_X toy_y01 "[1, 0, 1]" "[0, 1]"] c2
    by blast
  have c: "optimize_threshold toy_fitted toy_X \<lparr>series_values = [1, 2], series_name = None\<rparr> [1, 0] toy_f1
       = Inl (ValueError ''y contains previously unseen labels'')"
    using optimize_threshold_cases[of toy_fitted toy_f1 toy_X "\<lparr>series_values = [1, 2], series_name = None\<rparr>" "[1, 0]" "[0, 1]"] c1 e s2
    by blast
  have d: "optimize_threshold toy_pipeline toy_X toy_y01 [1, 0, 1] toy_f1
       = Inl (ValueError ''This LabelEncoder instance is not fitted yet.'')"
    using optimize_threshold_cases[of toy_pipeline toy_f1 toy_X toy_y01 "[1, 0, 1]" "[0, 1]"] c3 e
    by blast
  from a b c d show ?thesis by blast
qed

theorem optimize_threshold_counterexample:
  "can_tune_threshold_with_objective toy_fitted toy_f1
   \<and> optimize_threshold toy_fitted toy_X \<lparr>series_values = [1, 2], series_name = None\<rparr> [1, 0] toy_f1
       = Inl (ValueError ''y contains previously unseen labels'')"
  by (simp add: optimize_threshold_def can_tune_threshold_with_objective_def encode_targets_def
      LabelEncoder_transform_def toy_fitted_def toy_pipeline_def init_def toy_f1_def is_binary_def)

text \<open>
  Claim C7, as amended. \<open>tune_binary_threshold\<close> acts only when the problem type it
  is given is binary and the objective is defined for it and can optimize its threshold;
  otherwise it leaves the pipeline unchanged. When it acts, the threshold is first reset
  to 0.5, whether or not tuning data is supplied; with no tuning features, or with an
  empty table of them (\<open>if X_threshold_tuning:\<close> is false for both), that is all.
  With a non-empty table, \<open>optimize_threshold\<close> is called on the reset pipeline with
  the second column of \<open>predict_proba\<close> on the tuning features, and its result is the
  new pipeline; if \<open>predict_proba\<close>, the selection of the column or
  \<open>optimize_threshold\<close> raises, the pipeline stays the reset one. In every case
  where it acts the threshold is set afterwards.

  The claim as stated fails, as the counterexample after the witness shows: for a
  multiclass problem type, or an objective without a tunable threshold, the threshold is
  not reset although tuning data is supplied.
\<close>

theorem tune_binary_threshold_cases:
  fixes pipeline :: "('a, 'g, 'p) pipeline"
  defines "p1 \<equiv> pipeline\<lparr>threshold := Some (1 / 2)\<rparr>"
  shows "(\<not> (is_binary pt \<and> is_defined_for_problem_type ob pt \<and> can_optimize_threshold ob) \<longrightarrow>
            tune_binary_threshold ops pipeline ob pt Xt yt = (pipeline, None))
       \<and> (is_binary pt \<and> is_defined_for_problem_type ob pt \<and> can_optimize_threshold ob \<longrightarrow>
            tune_binary_threshold ops pipeline ob pt None yt = (p1, None)
            \<and> (x_len ops X = 0 \<longrightarrow> tune_binary_threshold ops pipeline ob pt (Some X) yt = (p1, None))
            \<and> (x_len ops X \<noteq> 0 \<and> predict_proba ops p1 X = Inr proba \<and> iloc_column proba 1 = Inr column \<longrightarrow>
                  tune_binary_threshold ops pipeline ob pt (Some X) yt =
                    (case optimize_threshold p1 X yt column ob of
                       Inl e \<Rightarrow> (p1, Some e)
                     | Inr p2 \<Rightarrow> (p2, None)))
            \<and> (x_len ops X \<noteq> 0 \<and> predict_proba ops p1 X = Inl e \<longrightarrow>
                  tune_binary_threshold ops pipeline ob pt (Some X) yt = (p1, Some e))
            \<and> (x_len ops X \<noteq> 0 \<and> predict_proba ops p1 X = Inr proba \<and> iloc_column proba 1 = Inl e \<longrightarrow>
                  tune_binary_threshold ops pipeline ob pt (Some X) yt = (p1, Some e))
            \<and> (snd (tune_binary_threshold ops pipeline ob pt Xt yt) \<noteq> None \<longrightarrow>
                  fst (tune_binary_threshold ops pipeline ob pt Xt yt) = p1)
            \<and> threshold (fst (tune_binary_threshold ops pipeline ob pt Xt yt)) \<noteq> None)"
  unfolding p1_def
  using tune_not_permitted[of pt ob ops pipeline Xt yt] tune_no_data[of pt ob ops pipeline yt]
    tune_empty_data[of pt ob ops X pipeline yt]
    tune_with_data[of pt ob ops X pipeline proba column yt]
    tune_proba_raises[of pt ob ops X pipeline e yt]
    tune_column_raises[of pt ob ops X pipeline proba e yt]
    tune_error_state[of pt ob ops pipeline Xt yt] tune_threshold_set[of pt ob ops pipeline Xt yt]
  by blast

theorem tune_binary_threshold_cases_witness:
  "tune_binary_threshold toy_ops toy_fitted toy_f1 MULTICLASS (Some toy_X) toy_y01 = (toy_fitted, None)
   \<and> tune_binary_threshold toy_ops toy_fitted toy_f1 BINARY None toy_y01
        = (toy_fitted\<lparr>threshold := Some (1 / 2)\<rparr>, None)
   \<and> tune_binary_threshold toy_ops toy_fitted toy_f1 BINARY (Some ([''f''], [])) toy_y01
        = (toy_fitted\<lparr>threshold := Some (1 / 2)\<rparr>, None)
   \<and> tune_binary_threshold toy_ops toy_fitted toy_f1 BINARY (Some toy_X) toy_y01
        = (toy_fitted\<lparr>threshold := Some (1 / 4)\<rparr>, None)
   \<and> tune_binary_threshold toy_ops toy_fitted toy_f1 BINARY (Some toy_X)
          \<lparr>series_values = [1, 2], series_name = None\<rparr>
        = (toy_fitted\<lparr>threshold := Some (1 / 2)\<rparr>, Some (ValueError ''y contains previously unseen labels''))
   \<and> tune_binary_threshold toy_ops toy_pipeline toy_f1 BINARY (Some toy_X) toy_y01
        = (toy_pipeline\<lparr>threshold := Some (1 / 2)\<rparr>,
           Some (PipelineNotYetFittedError ''This pipeline is not fitted yet.''))"
proof -
  have g0: "\<not> (is_binary MULTICLASS \<and> is_defined_for_problem_type toy_f1 MULTICLASS \<and> can_optimize_threshold toy_f1)"
    and g1: "is_binary BINARY \<and> is_defined_for_problem_type toy_f1 BINARY \<and> can_optimize_threshold toy_f1"
    by (simp_all add: is_binary_def toy_f1_def)
  have len: "x_len toy_ops toy_X \<noteq> 0" and len0: "x_len toy_ops ([''f''], []) = 0"
    by (simp_all add: toy_ops_def toy_X_def)
  have col: "iloc_column [(0::int, [0, 1, 0]), (1, [1, 0, 1])] 1 = Inr [1, 0, 1]"
    by (simp add: iloc_column_def)
  have o1: "optimize_threshold (toy_fitted\<lparr>threshold := Some (1 / 2)\<rparr>) toy_X toy_y01 [1, 0, 1] toy_f1
      = Inr (toy_fitted\<lparr>threshold := Some (1 / 4)\<rparr>)"
    by (simp add: optimize_threshold_def can_tune_threshold_with_objective_def encode_targets_def
      LabelEncoder_transform_def toy_fitted_def toy_pipeline_def init_def toy_f1_def is_binary_def toy_y01_def)
  have o2: "optimize_threshold (toy_fitted\<lparr>threshold := Some (1 / 2)\<rparr>) toy_X
       \<lparr>series_values = [1, 2], series_name = None\<rparr> [1, 0, 1] toy_f1
      = Inl (ValueError ''y contains previously unseen labels'')"
    by (simp add: optimize_threshold_def can_tune_threshold_with_objective_def encode_targets_def
      LabelEncoder_transform_def toy_fitted_def toy_pipeline_def init_def toy_f1_def is_binary_def)
  have nf: "predict_proba toy_ops (toy_pipeline\<lparr>threshold := Some (1 / 2)\<rparr>) toy_X
      = Inl (PipelineNotYetFittedError ''This pipeline is not fitted yet.'')"
    by (simp add: predict_proba_def toy_pipeline_def init_def)
  have a: "tune_binary_threshold toy_ops toy_fitted toy_f1 MULTICLASS (Some toy_X) toy_y01 = (toy_fitted, None)"
    using tune_binary_threshold_cases[of MULTICLASS toy_f1 toy_ops toy_fitted "Some toy_X" toy_y01] g0
    by blast
  have b: "tune_binary_threshold toy_ops toy_fitted toy_f1 BINARY None toy_y01
        = (toy_fitted\<lparr>threshold := Some (1 / 2)\<rparr>, None)"
    using tune_binary_threshold_cases[of BINARY toy_f1 toy_ops toy_fitted None toy_y01] g1
    by simp
  have b': "tune_binary_threshold toy_ops toy_fitted toy_f1 BINARY (Some ([''f''], [])) toy_y01
        = (toy_fitted\<lparr>threshold := Some (1 / 2)\<rparr>, None)"
    using tune_binary_threshold_cases[of BINARY toy_f1 toy_ops toy_fitted None toy_y01 "([''f''], [])"] g1 len0
    by simp
  have c: "tune_binary_threshold toy_ops toy_fitted toy_f1 BINARY (Some toy_X) toy_y01
        = (toy_fitted\<lparr>threshold := Some (1 / 4)\<rparr>, None)"
    using tune_binary_threshold_cases[of BINARY toy_f1 toy_ops toy_fitted None toy_y01 toy_X
        "[(0, [0, 1, 0]), (1, [1, 0, 1])]" "[1, 0, 1]"] g1 len toy_proba[of "Some (1 / 2)"] col o1
    by simp
  have d: "tune_binary_threshold toy_ops toy_fitted toy_f1 BINARY (Some toy_X)
          \<lparr>series_values = [1, 2], series_name = None\<rparr>
        = (toy_fitted\<lparr>threshold := Some (1 / 2)\<rparr>, Some (ValueError ''y contains previously unseen labels''))"
    using tune_binary_threshold_cases[of BINARY toy_f1 toy_ops toy_fitted None
        "\<lparr>series_values = [1, 2], series_name = None\<rparr>" toy_X
        "[(0, [0, 1, 0]), (1, [1, 0, 1])]" "[1, 0, 1]"] g1 len toy_proba[of "Some (1 / 2)"] col o2
    by simp
  have e: "tune_binary_threshold toy_ops toy_pipeline toy_f1 BINARY (Some toy_X) toy_y01
        = (toy_pipeline\<lparr>threshold := Some (1 / 2)\<rparr>,
           Some (PipelineNotYetFittedError ''This pipeline is not fitted yet.''))"
    using tune_binary_threshold_cases[of BINARY toy_f1 toy_ops toy_pipeline None toy_y01 toy_X
        "[]" "[]" "PipelineNotYetFittedError ''This pipeline is not fitted yet.''"] g1 len nf
    by simp
  from a b b' c d e show ?thesis by blast
qed

theorem tune_binary_threshold_counterexample:
  "tune_binary_threshold toy_ops toy_fitted toy_f1 MULTICLASS (Some toy_X) toy_y01 = (toy_fitted, None)
   \<and> threshold toy_fitted = None
   \<and> tune_binary_threshold toy_ops toy_fitted toy_log_loss BINARY (Some toy_X) toy_y01 = (toy_fitted, None)"
  by (simp add: tune_binary_threshold_def is_binary_def toy_f1_def toy_log_loss_def toy_fitted_def
      toy_pipeline_def init_def)




text \<open>
  Claim C2, as amended. \<open>score\<close> first encodes the targets: when they do not encode
  (a label was not seen at fit time) it raises a value error before any inference call.
  When they encode, it calls \<open>predict_proba\<close> if some objective needs probabilities
  and then \<open>_predict\<close> if some objective does not; an inference call that raises ends
  \<open>score\<close> with its exception, and otherwise the objectives are evaluated on the
  encoded targets and on what the two calls returned, the output of a kind that no
  objective needs being \<open>None\<close>. \<open>_predict\<close> is called if and only if some
  objective does not need probabilities, and at most once however many objectives ask.
  Unless the pipeline is a binary one with a threshold set, \<open>_predict\<close> gives the
  component graph's predictions, and \<open>predict_proba\<close> is called if and only if some
  objective needs probabilities, at most once. For a binary pipeline with a threshold set,
  \<open>_predict\<close> itself calls \<open>predict_proba\<close> and thresholds its second column, so
  the probabilities are computed once for the objectives that need them and once more
  for the label predictions. In every case the label predictions handed to the
  objectives are the output of \<open>_predict\<close> as it is: they are not decoded, the targets
  are encoded instead.

  The claim as stated fails, as the counterexample after the witness shows: for a
  pipeline fitted on the labels 10 and 20 the objectives are scored on the codes
  \<open>[1, 0, 1]\<close>, not on the decoded \<open>[20, 10, 20]\<close> (on which the score would be 0
  instead of 3), and a target with an unseen label ends the call before the
  probabilities an objective needs are computed.
\<close>

theorem score_inputs_computed:
  fixes p :: "('a, 'g, 'p) pipeline"
  defines "needs_proba \<equiv> \<lambda>objectives :: ('x, 'a) objective list. \<exists>ob\<in>set objectives. score_needs_proba ob"
  defines "needs_labels \<equiv> \<lambda>objectives :: ('x, 'a) objective list. \<exists>ob\<in>set objectives. \<not> score_needs_proba ob"
  defines "thresholded \<equiv> problem_type p = BINARY \<and> threshold p \<noteq> None"
  shows "(encode_targets p y = Inl e \<longrightarrow>
            (\<exists>m. e = ValueError m)
            \<and> score_logged ops p X y objectives = ([], Inl e)
            \<and> score ops p X y objectives = Inl e)
       \<and> (encode_targets p y = Inr y_enc
            \<and> (needs_proba objectives \<longrightarrow> predict_proba ops p X = Inr proba)
            \<and> (needs_labels objectives \<longrightarrow> snd (predict_private ops p X) = Inr predictions) \<longrightarrow>
            (\<exists>calls y_predicted y_predicted_proba.
               score_inputs ops p X y objectives = (calls, Inr (y_enc, y_predicted, y_predicted_proba))
               \<and> score_logged ops p X y objectives =
                   (calls, score_all_objectives p X (series_values y_enc) y_predicted y_predicted_proba objectives)
               \<and> calls = (if needs_proba objectives then [Call_predict_proba] else [])
                           @ (if needs_labels objectives
                              then Call_predict # (if thresholded then [Call_predict_proba] else [])
                              else [])
               \<and> (Call_predict \<in> set calls \<longleftrightarrow> needs_labels objectives)
               \<and> count_list calls Call_predict \<le> 1
               \<and> (Call_predict_proba \<in> set calls \<longleftrightarrow>
                     needs_proba objectives \<or> (needs_labels objectives \<and> thresholded))
               \<and> (\<not> thresholded \<longrightarrow> count_list calls Call_predict_proba \<le> 1)
               \<and> (thresholded \<longrightarrow>
                     count_list calls Call_predict_proba =
                       (if needs_proba objectives then 1 else 0) + (if needs_labels objectives then 1 else 0))
               \<and> y_predicted_proba = (if needs_proba objectives then Some proba else None)
               \<and> y_predicted = (if needs_labels objectives then Some predictions else None)))
       \<and> (encode_targets p y = Inr y_enc \<and> needs_proba objectives \<and> predict_proba ops p X = Inl e \<longrightarrow>
            score_logged ops p X y objectives = ([Call_predict_proba], Inl e))
       \<and> (encode_targets p y = Inr y_enc
            \<and> (needs_proba objectives \<longrightarrow> predict_proba ops p X = Inr proba)
            \<and> needs_labels objectives \<and> snd (predict_private ops p X) = Inl e \<longrightarrow>
            score_logged ops p X y objectives =
              ((if needs_proba objectives then [Call_predict_proba] else [])
               @ Call_predict # (if thresholded then [Call_predict_proba] else []), Inl e))
       \<and> (\<not> thresholded \<longrightarrow>
            snd (predict_private ops p X) = Inr (cg_predict ops (component_graph_instance p) X))
       \<and> (problem_type p = BINARY \<and> threshold p = Some t
            \<and> predict_proba ops p X = Inr proba \<and> iloc_column proba 1 = Inr column \<longrightarrow>
            snd (predict_private ops p X) = Inr (map (\<lambda>v. if t < v then 1 else 0) column))"
proof -
  have pc: "fst (predict_private ops p X) = Call_predict # (if thresholded then [Call_predict_proba] else [])"
    unfolding thresholded_def by (rule predict_private_calls)
  have a: "(\<exists>m. e = ValueError m)
            \<and> score_logged ops p X y objectives = ([], Inl e)
            \<and> score ops p X y objectives = Inl e"
    if "encode_targets p y = Inl e"
    using that encode_targets_error[OF that] by (simp add: score_inputs_def score_logged_def score_def)
  have b: "\<exists>calls y_predicted y_predicted_proba.
               score_inputs ops p X y objectives = (calls, Inr (y_enc, y_predicted, y_predicted_proba))
               \<and> score_logged ops p X y objectives =
                   (calls, score_all_objectives p X (series_values y_enc) y_predicted y_predicted_proba objectives)
               \<and> calls = (if needs_proba objectives then [Call_predict_proba] else [])
                           @ (if needs_labels objectives
                              then Call_predict # (if thresholded then [Call_predict_proba] else [])
                              else [])
               \<and> (Call_predict \<in> set calls \<longleftrightarrow> needs_labels objectives)
               \<and> count_list calls Call_predict \<le> 1
               \<and> (Call_predict_proba \<in> set calls \<longleftrightarrow>
                     needs_proba objectives \<or> (needs_labels objectives \<and> thresholded))
               \<and> (\<not> thresholded \<longrightarrow> count_list calls Call_predict_proba \<le> 1)
               \<and> (thresholded \<longrightarrow>
                     count_list calls Call_predict_proba =
                       (if needs_proba objectives then 1 else 0) + (if needs_labels objectives then 1 else 0))
               \<and> y_predicted_proba = (if needs_proba objectives then Some proba else None)
               \<and> y_predicted = (if needs_labels objectives then Some predictions else None)"
    if enc: "encode_targets p y = Inr y_enc"
      and pp: "needs_proba objectives \<longrightarrow> predict_proba ops p X = Inr proba"
      and pl: "needs_labels objectives \<longrightarrow> snd (predict_private ops p X) = Inr predictions"
  proof -
    from pp have 1: "list_ex score_needs_proba objectives \<longrightarrow> predict_proba ops p X = Inr proba"
      by (simp add: needs_proba_def list_ex_iff)
    from pl have 2: "list_ex (\<lambda>ob. \<not> score_needs_proba ob) objectives
        \<longrightarrow> snd (predict_private ops p X) = Inr predictions"
      by (simp add: needs_labels_def list_ex_iff)
    from compute_predictions_result[OF 1 2, of y_enc]
    have si: "score_inputs ops p X y objectives =
       ((if needs_proba objectives then [Call_predict_proba] else [])
        @ (if needs_labels objectives
           then Call_predict # (if thresholded then [Call_predict_proba] else [])
           else []),
        Inr (y_enc,
             (if needs_labels objectives then Some predictions else None),
             (if needs_proba objectives then Some proba else None)))"
      by (simp add: score_inputs_def enc needs_proba_def needs_labels_def list_ex_iff pc)
    show ?thesis
      unfolding si by (simp add: score_logged_def si)
  qed
  have c: "score_logged ops p X y objectives = ([Call_predict_proba], Inl e)"
    if "encode_targets p y = Inr y_enc \<and> needs_proba objectives \<and> predict_proba ops p X = Inl e"
  proof -
    from that have "list_ex score_needs_proba objectives" by (simp add: needs_proba_def list_ex_iff)
    from compute_predictions_proba_raises[OF this, of ops p X e y_enc] that
    show ?thesis by (simp add: score_logged_def score_inputs_def)
  qed
  have d: "score_logged ops p X y objectives =
              ((if needs_proba objectives then [Call_predict_proba] else [])
               @ Call_predict # (if thresholded then [Call_predict_proba] else []), Inl e)"
    if h: "encode_targets p y = Inr y_enc
            \<and> (needs_proba objectives \<longrightarrow> predict_proba ops p X = Inr proba)
            \<and> needs_labels objectives \<and> snd (predict_private ops p X) = Inl e"
  proof -
    from h have 1: "list_ex score_needs_proba objectives \<longrightarrow> predict_proba ops p X = Inr proba"
      and 2: "list_ex (\<lambda>ob. \<not> score_needs_proba ob) objectives"
      and 3: "snd (predict_private ops p X) = Inl e"
      by (simp_all add: needs_proba_def needs_labels_def list_ex_iff)
    from compute_predictions_predict_raises[OF 1 2 3, of y_enc] h
    show ?thesis by (simp add: score_logged_def score_inputs_def pc needs_proba_def list_ex_iff)
  qed
  have f: "snd (predict_private ops p X) = Inr (cg_predict ops (component_graph_instance p) X)"
    if "\<not> thresholded"
    using that predict_private_graph[of p ops X] by (auto simp: thresholded_def)
  have g: "snd (predict_private ops p X) = Inr (map (\<lambda>v. if t < v then 1 else 0) column)"
    if "problem_type p = BINARY \<and> threshold p = Some t
            \<and> predict_proba ops p X = Inr proba \<and> iloc_column proba 1 = Inr column"
    using that predict_private_threshold[of p t ops X] by simp
  from a b c d f g show ?thesis by blast
qed

theorem score_inputs_computed_witness:
  "score_inputs toy_ops toy_fitted10 toy_X toy_y [toy_f1, toy_log_loss, toy_f1, toy_log_loss]
     = ([Call_predict_proba, Call_predict],
        Inr (\<lparr>series_values = [1, 0, 1], series_name = Some ''target''\<rparr>,
             Some [1, 0, 1],
             Some [(10, [0, 1, 0]), (20, [1, 0, 1])]))
   \<and> score_inputs toy_ops toy_fitted10 toy_X toy_y [toy_f1, toy_f1]
     = ([Call_predict], Inr (\<lparr>series_values = [1, 0, 1], series_name = Some ''target''\<rparr>, Some [1, 0, 1], None))
   \<and> score_inputs toy_ops toy_tuned10 toy_X toy_y [toy_f1, toy_log_loss, toy_f1, toy_log_loss]
     = ([Call_predict_proba, Call_predict, Call_predict_proba],
        Inr (\<lparr>series_values = [1, 0, 1], series_name = Some ''target''\<rparr>,
             Some [1, 0, 1],
             Some [(10, [0, 1, 0]), (20, [1, 0, 1])]))
   \<and> score_logged toy_ops toy_fitted10 toy_X toy_y01 [toy_log_loss]
     = ([], Inl (ValueError ''y contains previously unseen labels''))
   \<and> score_logged toy_ops (toy_fitted10\<lparr>is_fitted := False\<rparr>) toy_X toy_y [toy_f1, toy_log_loss]
     = ([Call_predict_proba], Inl (PipelineNotYetFittedError ''This pipeline is not fitted yet.''))"
proof -
  have enc: "encode_targets toy_fitted10 toy_y = Inr \<lparr>series_values = [1, 0, 1], series_name = Some ''target''\<rparr>"
    "encode_targets toy_tuned10 toy_y = Inr \<lparr>series_values = [1, 0, 1], series_name = Some ''target''\<rparr>"
    "encode_targets (toy_fitted10\<lparr>is_fitted := False\<rparr>) toy_y
       = Inr \<lparr>series_values = [1, 0, 1], series_name = Some ''target''\<rparr>"
    by (simp_all add: encode_targets_def LabelEncoder_transform_def toy_tuned10_def toy_fitted10_def toy_y_def)
  have enc2: "encode_targets toy_fitted10 toy_y01 = Inl (ValueError ''y contains previously unseen labels'')"
    by (simp add: encode_targets_def LabelEncoder_transform_def toy_fitted10_def toy_y01_def)
  have pp: "predict_proba toy_ops toy_fitted10 toy_X = Inr [(10, [0, 1, 0]), (20, [1, 0, 1])]"
    "predict_proba toy_ops toy_tuned10 toy_X = Inr [(10, [0, 1, 0]), (20, [1, 0, 1])]"
    using toy_proba10[of None] toy_proba10[of "Some (1 / 2)"]
    by (simp_all add: toy_tuned10_def toy_fitted10_def toy_pipeline_def init_def)
  have nf: "predict_proba toy_ops (toy_fitted10\<lparr>is_fitted := False\<rparr>) toy_X
      = Inl (PipelineNotYetFittedError ''This pipeline is not fitted yet.'')"
    by (simp add: predict_proba_def)
  have th: "\<not> (problem_type toy_fitted10 = BINARY \<and> threshold toy_fitted10 \<noteq> None)"
    "problem_type toy_tuned10 = BINARY \<and> threshold toy_tuned10 \<noteq> None"
    by (simp_all add: toy_tuned10_def toy_fitted10_def toy_pipeline_def init_def)
  have pl: "snd (predict_private toy_ops toy_fitted10 toy_X) = Inr [1, 0, 1]"
    by (simp add: predict_private_def toy_fitted10_def toy_pipeline_def init_def toy_ops_def toy_X_def)
  have pl2: "snd (predict_private toy_ops toy_tuned10 toy_X) = Inr [1, 0, 1]"
    using pp(2) by (simp add: predict_private_def toy_tuned10_def toy_fitted10_def toy_pipeline_def init_def
        iloc_column_def)
  have n: "score_needs_proba toy_log_loss" "\<not> score_needs_proba toy_f1"
    by (simp_all add: toy_log_loss_def toy_f1_def)
  have "\<exists>ob\<in>set [toy_f1, toy_log_loss, toy_f1, toy_log_loss]. score_needs_proba ob"
    and "\<exists>ob\<in>set [toy_f1, toy_log_loss, toy_f1, toy_log_loss]. \<not> score_needs_proba ob"
    and "\<not> (\<exists>ob\<in>set [toy_f1, toy_f1]. score_needs_proba ob)"
    and "\<exists>ob\<in>set [toy_f1, toy_f1]. \<not> score_needs_proba ob"
    and "\<exists>ob\<in>set [toy_f1, toy_log_loss]. score_needs_proba ob"
    using n by simp_all
  note q = this
  have a': "score_inputs toy_ops toy_fitted10 toy_X toy_y [toy_f1, toy_log_loss, toy_f1, toy_log_loss]
     = ([Call_predict_proba, Call_predict],
        Inr (\<lparr>series_values = [1, 0, 1], series_name = Some ''target''\<rparr>,
             Some [1, 0, 1],
             Some [(10, [0, 1, 0]), (20, [1, 0, 1])]))"
    using score_inputs_computed[of toy_fitted10 toy_y _ toy_ops toy_X "[toy_f1, toy_log_loss, toy_f1, toy_log_loss]"
      "\<lparr>series_values = [1, 0, 1], series_name = Some ''target''\<rparr>" "[(10, [0, 1, 0]), (20, [1, 0, 1])]"
      "[1, 0, 1]"]
      enc(1) pp(1) pl q(1,2) th(1)
    by auto
  have b': "score_inputs toy_ops toy_fitted10 toy_X toy_y [toy_f1, toy_f1]
     = ([Call_predict], Inr (\<lparr>series_values = [1, 0, 1], series_name = Some ''target''\<rparr>, Some [1, 0, 1], None))"
    using score_inputs_computed[of toy_fitted10 toy_y _ toy_ops toy_X "[toy_f1, toy_f1]"
      "\<lparr>series_values = [1, 0, 1], series_name = Some ''target''\<rparr>" "[]" "[1, 0, 1]"]
      enc(1) pl q(3,4) th(1)
    by auto
  have c': "score_inputs toy_ops toy_tuned10 toy_X toy_y [toy_f1, toy_log_loss, toy_f1, toy_log_loss]
     = ([Call_predict_proba, Call_predict, Call_predict_proba],
        Inr (\<lparr>series_values = [1, 0, 1], series_name = Some ''target''\<rparr>,
             Some [1, 0, 1],
             Some [(10, [0, 1, 0]), (20, [1, 0, 1])]))"
    using score_inputs_computed[of toy_tuned10 toy_y _ toy_ops toy_X "[toy_f1, toy_log_loss, toy_f1, toy_log_loss]"
      "\<lparr>series_values = [1, 0, 1], series_name = Some ''target''\<rparr>" "[(10, [0, 1, 0]), (20, [1, 0, 1])]"
      "[1, 0, 1]"]
      enc(2) pp(2) pl2 q(1,2) th(2)
    by auto
  from score_inputs_computed[of toy_fitted10 toy_y01 "ValueError ''y contains previously unseen labels''"
      toy_ops toy_X "[toy_log_loss]"] enc2
  have d': "score_logged toy_ops toy_fitted10 toy_X toy_y01 [toy_log_loss]
     = ([], Inl (ValueError ''y contains previously unseen labels''))"
    by blast
  from score_inputs_computed[of "toy_fitted10\<lparr>is_fitted := False\<rparr>" toy_y
      "PipelineNotYetFittedError ''This pipeline is not fitted yet.''"
      toy_ops toy_X "[toy_f1, toy_log_loss]" "\<lparr>series_values = [1, 0, 1], series_name = Some ''target''\<rparr>"]
    enc(3) nf q(5)
  have e': "score_logged toy_ops (toy_fitted10\<lparr>is_fitted := False\<rparr>) toy_X toy_y [toy_f1, toy_log_loss]
     = ([Call_predict_proba], Inl (PipelineNotYetFittedError ''This pipeline is not fitted yet.''))"
    by blast
  from a' b' c' d' e' show ?thesis by blast
qed

theorem score_decodes_counterexample:
  "score_inputs toy_ops toy_fitted10 toy_X toy_y [toy_f1]
     = ([Call_predict], Inr (\<lparr>series_values = [1, 0, 1], series_name = Some ''target''\<rparr>, Some [1, 0, 1], None))
   \<and> decode_targets toy_fitted10 [1, 0, 1] = Inr [20, 10, 20]
   \<and> score toy_ops toy_fitted10 toy_X toy_y [toy_f1] = Inr [(''F1'', 3)]
   \<and> score_all_objectives toy_fitted10 toy_X [1, 0, 1] (Some [20, 10, 20]) None [toy_f1] = Inr [(''F1'', 0)]
   \<and> score_logged toy_ops toy_fitted10 toy_X toy_y01 [toy_log_loss]
     = ([], Inl (ValueError ''y contains previously unseen labels''))"
  by (simp add: score_def score_logged_def score_inputs_def compute_predictions_def encode_targets_def
      LabelEncoder_transform_def decode_targets_def LabelEncoder_inverse_transform_def
      predict_private_def score_all_objectives_def score_objective_def
      toy_fitted10_def toy_pipeline_def init_def toy_ops_def toy_X_def toy_y_def toy_y01_def
      toy_f1_def toy_log_loss_def)

text \<open>
  Claim C4, as amended. Two pipelines are equal if and only if they have the same
  concrete class, the same parameters, the same random seed and the same fitted state
  and, when both are fitted, the same \<open>input_target_name\<close> and the same feature names
  seen at fit time. Consequently an unfitted pipeline never equals a fitted one,
  pipelines fitted on targets with different names are not equal, neither are pipelines
  fitted on feature tables with different columns, two equal pipelines fitted on the same
  data are equal, and an instance of a subclass is never equal to an instance of a class
  it inherits from, in either order.

  The claim as stated fails, as the counterexample after the witness shows: two
  pipelines of the same class, parameters and seed, both fitted, with the same target
  name, are not equal when one was fitted on a table with a further column.
\<close>

theorem pipeline_equality:
  fixes p q :: "('a::linorder, 'g, 'p) pipeline"
  shows "(pipeline_eq p q \<longleftrightarrow>
            pipeline_class p = pipeline_class q \<and> parameters p = parameters q
            \<and> random_seed p = random_seed q \<and> is_fitted p = is_fitted q
            \<and> (is_fitted p \<and> is_fitted q \<longrightarrow>
                  input_target_name p = input_target_name q
                  \<and> input_feature_names p = input_feature_names q))
       \<and> (is_fitted p \<noteq> is_fitted q \<longrightarrow> \<not> pipeline_eq p q)
       \<and> (fit ops p X y = Inr p' \<and> fit ops q X' y' = Inr q' \<and> series_name y \<noteq> series_name y'
            \<longrightarrow> \<not> pipeline_eq p' q')
       \<and> (fit ops p X y = Inr p' \<and> fit ops q X' y' = Inr q'
            \<and> cg_feature_names ops X \<noteq> cg_feature_names ops X' \<longrightarrow> \<not> pipeline_eq p' q')
       \<and> (fit ops p X y = Inr p' \<and> fit ops q X y = Inr q' \<and> pipeline_eq p q \<longrightarrow> pipeline_eq p' q')
       \<and> (pipeline_class q \<in> set (class_ancestors (pipeline_class p))
            \<longrightarrow> \<not> pipeline_eq p q \<and> \<not> pipeline_eq q p)"
proof (intro conjI impI)
  show "pipeline_eq p q \<longleftrightarrow>
            pipeline_class p = pipeline_class q \<and> parameters p = parameters q
            \<and> random_seed p = random_seed q \<and> is_fitted p = is_fitted q
            \<and> (is_fitted p \<and> is_fitted q \<longrightarrow>
                  input_target_name p = input_target_name q
                  \<and> input_feature_names p = input_feature_names q)"
    by (auto simp: pipeline_eq_def)
next
  assume "is_fitted p \<noteq> is_fitted q"
  then show "\<not> pipeline_eq p q" by (simp add: pipeline_eq_def)
next
  assume a: "fit ops p X y = Inr p' \<and> fit ops q X' y' = Inr q' \<and> series_name y \<noteq> series_name y'"
  then have "is_fitted p'" "is_fitted q'" "input_target_name p' = series_name y"
    "input_target_name q' = series_name y'"
    using fit_fitted(1,3)[of ops p X y p'] fit_fitted(1,3)[of ops q X' y' q'] by simp_all
  with a show "\<not> pipeline_eq p' q'" by (simp add: pipeline_eq_def)
next
  assume a: "fit ops p X y = Inr p' \<and> fit ops q X' y' = Inr q'
            \<and> cg_feature_names ops X \<noteq> cg_feature_names ops X'"
  then have "is_fitted p'" "is_fitted q'" "input_feature_names p' = Some (cg_feature_names ops X)"
    "input_feature_names q' = Some (cg_feature_names ops X')"
    using fit_fitted(1,4)[of ops p X y p'] fit_fitted(1,4)[of ops q X' y' q'] by simp_all
  with a show "\<not> pipeline_eq p' q'" by (simp add: pipeline_eq_def)
next
  assume a: "fit ops p X y = Inr p' \<and> fit ops q X y = Inr q' \<and> pipeline_eq p q"
  then show "pipeline_eq p' q'"
    unfolding fit_result by (auto simp: pipeline_eq_def fit_private_def split: sum.splits)
next
  assume "pipeline_class q \<in> set (class_ancestors (pipeline_class p))"
  then have "pipeline_class p \<noteq> pipeline_class q" by (rule subclass_not_parent)
  then show "\<not> pipeline_eq p q" by (simp add: pipeline_eq_def)
next
  assume "pipeline_class q \<in> set (class_ancestors (pipeline_class p))"
  then have "pipeline_class p \<noteq> pipeline_class q" by (rule subclass_not_parent)
  then show "\<not> pipeline_eq q p" by (auto simp: pipeline_eq_def)
qed

theorem pipeline_equality_witness:
  "pipeline_eq toy_fitted toy_fitted
   \<and> \<not> pipeline_eq toy_pipeline toy_fitted
   \<and> \<not> pipeline_eq toy_fitted10 toy_fitted
   \<and> \<not> pipeline_eq toy_fitted toy_fitted2
   \<and> \<not> pipeline_eq (toy_pipeline\<lparr>pipeline_class := toy_subclass\<rparr>) toy_pipeline
   \<and> \<not> pipeline_eq toy_pipeline (toy_pipeline\<lparr>pipeline_class := toy_subclass\<rparr>)"
proof -
  have refl: "pipeline_eq toy_pipeline toy_pipeline"
    using pipeline_equality[of toy_pipeline toy_pipeline toy_ops toy_X toy_y01 toy_fitted toy_X toy_y01 toy_fitted]
    by simp
  have a: "pipeline_eq toy_fitted toy_fitted"
    using pipeline_equality[of toy_pipeline toy_pipeline toy_ops toy_X toy_y01 toy_fitted toy_X toy_y01 toy_fitted]
      toy_fit_fitted refl by blast
  have "is_fitted toy_pipeline \<noteq> is_fitted toy_fitted"
    by (simp add: toy_fitted_def toy_pipeline_def init_def)
  then have b: "\<not> pipeline_eq toy_pipeline toy_fitted"
    using pipeline_equality[of toy_pipeline toy_fitted toy_ops toy_X toy_y01 toy_fitted toy_X toy_y01 toy_fitted]
    by blast
  have "series_name toy_y \<noteq> series_name toy_y01"
    by (simp add: toy_y_def toy_y01_def)
  then have c: "\<not> pipeline_eq toy_fitted10 toy_fitted"
    using pipeline_equality[of toy_pipeline toy_pipeline toy_ops toy_X toy_y toy_fitted10 toy_X toy_y01 toy_fitted]
      toy_fit10 toy_fit_fitted by blast
  have "cg_feature_names toy_ops toy_X \<noteq> cg_feature_names toy_ops toy_X2"
    by (simp add: toy_ops_def toy_X_def toy_X2_def)
  then have d: "\<not> pipeline_eq toy_fitted toy_fitted2"
    using pipeline_equality[of toy_pipeline toy_pipeline toy_ops toy_X toy_y01 toy_fitted toy_X2 toy_y01 toy_fitted2]
      toy_fit_fitted toy_fit2 by blast
  have "pipeline_class toy_pipeline \<in> set (class_ancestors (pipeline_class (toy_pipeline\<lparr>pipeline_class := toy_subclass\<rparr>)))"
    by (simp add: toy_pipeline_def init_def toy_subclass_def)
  then have e: "\<not> pipeline_eq (toy_pipeline\<lparr>pipeline_class := toy_subclass\<rparr>) toy_pipeline
       \<and> \<not> pipeline_eq toy_pipeline (toy_pipeline\<lparr>pipeline_class := toy_subclass\<rparr>)"
    using pipeline_equality[of "toy_pipeline\<lparr>pipeline_class := toy_subclass\<rparr>" toy_pipeline
        toy_ops toy_X toy_y01 toy_fitted toy_X toy_y01 toy_fitted]
    by blast
  from a b c d e show ?thesis by blast
qed

theorem pipeline_equality_counterexample:
  "fit toy_ops toy_pipeline toy_X toy_y01 = Inr toy_fitted
   \<and> fit toy_ops toy_pipeline toy_X2 toy_y01 = Inr toy_fitted2
   \<and> pipeline_class toy_fitted = pipeline_class toy_fitted2
   \<and> parameters toy_fitted = parameters toy_fitted2
   \<and> random_seed toy_fitted = random_seed toy_fitted2
   \<and> is_fitted toy_fitted \<and> is_fitted toy_fitted2
   \<and> input_target_name toy_fitted = input_target_name toy_fitted2
   \<and> \<not> pipeline_eq toy_fitted toy_fitted2"
  using toy_fit_fitted toy_fit2
  by (simp add: pipeline_eq_def toy_fitted2_def toy_fitted_def toy_pipeline_def init_def)

text \<open>
  Claim C5. For every pipeline \<open>p\<close>, fitted or not, \<open>p.clone()\<close> has the parameters,
  the random seed and the class of \<open>p\<close> and is not fitted: it has no encoder classes,
  no target name, no feature names, no threshold, and a component graph built afresh
  from the parameters and the seed. It does not depend on anything \<open>p\<close> has learned:
  changing the learned state of \<open>p\<close>, or fitting \<open>p\<close>, gives the same clone. Calling
  \<open>predict\<close> (or \<open>predict_proba\<close>) on the clone fails with
  \<open>PipelineNotYetFittedError\<close>.
\<close>

theorem clone_unfitted:
  fixes p :: "('a::linorder, 'g, 'p) pipeline"
  shows "parameters (clone ops p) = parameters p
       \<and> random_seed (clone ops p) = random_seed p
       \<and> pipeline_class (clone ops p) = pipeline_class p
       \<and> \<not> is_fitted (clone ops p)
       \<and> encoder_classes (clone ops p) = None
       \<and> input_target_name (clone ops p) = None
       \<and> input_feature_names (clone ops p) = None
       \<and> threshold (clone ops p) = None
       \<and> component_graph_instance (clone ops p) = cg_new ops (parameters p) (random_seed p)
       \<and> clone ops (p\<lparr>is_fitted := f, input_target_name := t, input_feature_names := fs,
                      encoder_classes := cs, threshold := th, component_graph_instance := g\<rparr>)
           = clone ops p
       \<and> (fit ops p X y = Inr p' \<longrightarrow> clone ops p' = clone ops p \<and> is_fitted p')
       \<and> predict ops (clone ops p) X' = Inl (PipelineNotYetFittedError ''This pipeline is not fitted yet.'')
       \<and> predict_proba ops (clone ops p) X' = Inl (PipelineNotYetFittedError ''This pipeline is not fitted yet.'')"
proof -
  have "clone ops p' = clone ops p \<and> is_fitted p'" if "fit ops p X y = Inr p'"
    using that unfolding fit_result by (auto simp: clone_def fit_private_def split: sum.splits)
  then show ?thesis
    by (simp add: clone_def init_def predict_def predict_proba_def)
qed

theorem clone_unfitted_witness:
  "clone toy_ops toy_fitted = toy_pipeline
   \<and> is_fitted toy_fitted
   \<and> \<not> is_fitted (clone toy_ops toy_fitted)
   \<and> parameters (clone toy_ops toy_fitted) = parameters toy_fitted
   \<and> random_seed (clone toy_ops toy_fitted) = random_seed toy_fitted
   \<and> predict toy_ops (clone toy_ops toy_fitted) toy_X
        = Inl (PipelineNotYetFittedError ''This pipeline is not fitted yet.'')
   \<and> predict toy_ops toy_fitted toy_X = Inr \<lparr>series_values = [1, 0, 1], series_name = None\<rparr>"
proof -
  have "clone toy_ops toy_pipeline = toy_pipeline"
    by (simp add: clone_def toy_pipeline_def init_def)
  moreover have "predict toy_ops toy_fitted toy_X = Inr \<lparr>series_values = [1, 0, 1], series_name = None\<rparr>"
    by (simp add: predict_def decode_targets_def LabelEncoder_inverse_transform_def predict_private_def
        toy_fitted_def toy_pipeline_def init_def toy_ops_def toy_X_def)
  ultimately show ?thesis
    using clone_unfitted[of toy_ops toy_fitted _ _ _ _ _ _ toy_X toy_y01 toy_fitted toy_X]
      clone_unfitted[of toy_ops toy_pipeline _ _ _ _ _ _ toy_X toy_y01 toy_fitted toy_X] toy_fit_fitted
    by simp
qed

text \<open>
  Claim C9. For every pipeline passed to the generated-code export: if its component
  graph is non-linear the export raises a value error whose text says "not supported
  yet"; if the graph is linear and some parameter value cannot be represented in JSON,
  the export raises a type error whose text says "cannot be JSON-serialized" and holds
  the text of the offending value, which is an object outside JSON; the export produces
  a script exactly when the graph is linear and every parameter value is representable,
  and the script holds the JSON text of the parameters.
\<close>

theorem generate_pipeline_code_cases:
  fixes p :: "('a, 'g, (string \<times> pvalue) list) pipeline"
  shows "(component_graph p = NonlinearGraph nodes \<longrightarrow>
            (\<exists>msg. generate_pipeline_code p = Inl (ValueError msg) \<and> sublist ''not supported yet'' msg))
       \<and> (component_graph p = LinearGraph comps \<and> unserializable (PDict (parameters p)) = v # vs \<longrightarrow>
            (\<exists>msg r. generate_pipeline_code p = Inl (TypeError msg)
               \<and> sublist ''cannot be JSON-serialized'' msg
               \<and> v = PObject r \<and> sublist r msg))
       \<and> ((\<exists>script. generate_pipeline_code p = Inr script) \<longleftrightarrow>
            (\<exists>cs. component_graph p = LinearGraph cs) \<and> unserializable (PDict (parameters p)) = [])
       \<and> (generate_pipeline_code p = Inr script \<longrightarrow>
            sublist (json_dumps 0 (PDict (parameters p))) script)"
proof (intro conjI impI)
  assume "component_graph p = NonlinearGraph nodes"
  then have "generate_pipeline_code p =
      Inl (ValueError (''Code generation for nonlinear pipelines is '' @ ''not supported yet''))"
    by (simp add: generate_pipeline_code_def)
  moreover have "sublist ''not supported yet'' (''Code generation for nonlinear pipelines is '' @ ''not supported yet'')"
    by (rule sublist_append_leftI)
  ultimately show "\<exists>msg. generate_pipeline_code p = Inl (ValueError msg) \<and> sublist ''not supported yet'' msg"
    by blast
next
  assume a: "component_graph p = LinearGraph comps \<and> unserializable (PDict (parameters p)) = v # vs"
  then have "v \<in> set (unserializable (PDict (parameters p)))" by simp
  then obtain r where r: "v = PObject r" using unserializable_objects by blast
  from a r have g: "generate_pipeline_code p =
      Inl (TypeError ((''Value '' @ r @ '' '') @ ''cannot be JSON-serialized''))"
    by (simp add: generate_pipeline_code_def)
  have s1: "sublist ''cannot be JSON-serialized'' ((''Value '' @ r @ '' '') @ ''cannot be JSON-serialized'')"
    by (rule sublist_append_leftI)
  have "sublist r (''Value '' @ r @ ('' '' @ ''cannot be JSON-serialized''))"
    by (rule sublist_appendI)
  then have s2: "sublist r ((''Value '' @ r @ '' '') @ ''cannot be JSON-serialized'')"
    by simp
  from g s1 s2 r
  show "\<exists>msg r. generate_pipeline_code p = Inl (TypeError msg)
               \<and> sublist ''cannot be JSON-serialized'' msg \<and> v = PObject r \<and> sublist r msg"
    by blast
next
  show "(\<exists>script. generate_pipeline_code p = Inr script) \<longleftrightarrow>
            (\<exists>cs. component_graph p = LinearGraph cs) \<and> unserializable (PDict (parameters p)) = []"
    by (auto simp del: unserializable.simps simp: generate_pipeline_code_def
        split: graph_spec.splits list.splits)
next
  assume "generate_pipeline_code p = Inr script"
  then obtain cs where "script = pipeline_script p cs"
    by (auto simp del: unserializable.simps simp: generate_pipeline_code_def
        split: graph_spec.splits list.splits)
  then show "sublist (json_dumps 0 (PDict (parameters p))) script"
    by (simp only: pipeline_script_json)
qed

theorem generate_pipeline_code_cases_witness:
  "generate_pipeline_code mock_nonlinear_pipeline
     = Inl (ValueError ''Code generation for nonlinear pipelines is not supported yet'')
   \<and> generate_pipeline_code mock_array_pipeline
     = Inl (TypeError ''Value array([0]) cannot be JSON-serialized'')
   \<and> generate_pipeline_code mock_regression_pipeline = Inr expected_code
   \<and> sublist (json_dumps 0 (PDict mock_parameters)) expected_code"
proof -
  have a: "generate_pipeline_code mock_nonlinear_pipeline
     = Inl (ValueError ''Code generation for nonlinear pipelines is not supported yet'')"
    using generate_pipeline_code_cases[of mock_nonlinear_pipeline _ "[]" "PNone" "[]" "[]"]
    by (simp add: generate_pipeline_code_def mock_nonlinear_pipeline_def)
  have u: "unserializable (PDict (parameters mock_array_pipeline)) = [PObject ''array([0])'']"
    and l: "component_graph mock_array_pipeline = LinearGraph [ByName ''Imputer'', ByClass ''CustomEstimator'']"
    by (simp_all add: mock_array_pipeline_def)
  have b: "generate_pipeline_code mock_array_pipeline
     = Inl (TypeError ''Value array([0]) cannot be JSON-serialized'')"
    using generate_pipeline_code_cases[of mock_array_pipeline "[]" "[ByName ''Imputer'', ByClass ''CustomEstimator'']"
        "PObject ''array([0])''" "[]" "[]"] u l
    by (auto simp: generate_pipeline_code_def)
  have p: "parameters mock_regression_pipeline = mock_parameters"
    by (simp add: mock_regression_pipeline_def init_def)
  have c: "sublist (json_dumps 0 (PDict mock_parameters)) expected_code"
    using generate_pipeline_code_cases[of mock_regression_pipeline "[]" "[]" "PNone" "[]" expected_code]
      generate_mock_regression p
    by simp
  from a b generate_mock_regression c show ?thesis by blast
qed

end
